theory Spec2Isabelle
  imports Complex_Main "HOL-Library.Word" "HOL-Library.Char_ord" "HOL-Library.List_Lexorder"
begin

section \<open>Errors\<close>

text \<open>
  Every \<^verbatim>\<open>raise\<close> and \<^verbatim>\<open>assert\<close> of \<^verbatim>\<open>helper.py\<close> is a value of this type; a function
  that can raise returns \<open>error + 'a\<close> with \<open>Inl\<close> for the exception. The constructors
  carry the names the specification gives to the raise sites.
\<close>

datatype error =
    UnsupportedOpset \<comment> \<open>\<^verbatim>\<open>ValueError("Unsupported opset-version.")\<close>, line 72\<close>
  | UnsupportedAttributeType \<comment> \<open>\<^verbatim>\<open>TypeError\<close>, line 397\<close>
  | AmbiguousAttributeType \<comment> \<open>\<^verbatim>\<open>ValueError\<close>, line 393\<close>
  | UnsupportedAttributeKind \<comment> \<open>\<^verbatim>\<open>ValueError\<close>, line 427\<close>
  | InvalidRawStringTensor \<comment> \<open>the \<^verbatim>\<open>assert not raw\<close> of line 236\<close>
  | SizeMismatch \<comment> \<open>\<^verbatim>\<open>ValueError\<close>, line 243\<close>
  | DenotationLengthMismatch \<comment> \<open>\<^verbatim>\<open>ValueError\<close>, lines 466 and 519\<close>
  | InvalidShapeItem \<comment> \<open>\<^verbatim>\<open>ValueError\<close>, lines 479 and 532\<close>
  | KeyError \<comment> \<open>a table of \<^verbatim>\<open>onnx.mapping\<close> has no entry for the key\<close>
  | AttributeError \<comment> \<open>\<^verbatim>\<open>.real\<close> or \<^verbatim>\<open>getattr\<close> on a value without that attribute\<close>
  | TypeError \<comment> \<open>the message layer refuses a value of the wrong type for a field\<close>
  | IndexError \<comment> \<open>a list is indexed out of its range\<close>
  | AssertionError \<comment> \<open>an \<^verbatim>\<open>assert\<close> of the printer, line 652\<close>
  | EmptySequence \<comment> \<open>\<^verbatim>\<open>max\<close> of an empty list\<close>

section \<open>Version table\<close>

text \<open>
  A row of \<^verbatim>\<open>VERSION_TABLE\<close> is a tuple \<^verbatim>\<open>(release, ir_version, *args)\<close>; \<^verbatim>\<open>process\<close> takes
  the trailing integers as \<^verbatim>\<open>*args\<close>, so a row is modelled with the list of them.
\<close>

type_synonym VersionRowType = "string \<times> int \<times> int list"
type_synonym VersionTableType = "VersionRowType list"
type_synonym VersionMapType = "(string \<times> int) \<rightharpoonup> int"

definition VERSION_TABLE :: VersionTableType where
  "VERSION_TABLE =
    [(''1.0'', 3, [1, 1]),
     (''1.1'', 3, [5, 1]),
     (''1.1.2'', 3, [6, 1]),
     (''1.2'', 3, [7, 1]),
     (''1.3'', 3, [8, 1]),
     (''1.4.1'', 4, [9, 1]),
     (''1.5.0'', 5, [10, 1]),
     (''1.6.0'', 6, [11, 2]),
     (''1.7.0'', 7, [12, 2, 1]),
     (''1.8.0'', 7, [13, 2, 1]),
     (''1.8.1'', 7, [13, 2, 1]),
     (''1.9.0'', 7, [14, 2, 1])]"

definition DOMAINS :: "string list" where
  "DOMAINS = [''ai.onnx'', ''ai.onnx.ml'', ''ai.onnx.training'']"

text \<open>The inner loop of \<^verbatim>\<open>process\<close>: one pair at a time, written only when absent.\<close>

fun process_pairs :: "int \<Rightarrow> (string \<times> int) list \<Rightarrow> VersionMapType \<Rightarrow> VersionMapType" where
  "process_pairs ir_version [] result = result"
| "process_pairs ir_version (pair # pairs) result =
     process_pairs ir_version pairs
       (if result pair = None then result(pair \<mapsto> ir_version) else result)"

fun process :: "VersionRowType \<Rightarrow> VersionMapType \<Rightarrow> VersionMapType" where
  "process (release_version, ir_version, args) result =
     process_pairs ir_version (zip DOMAINS args) result"

fun process_rows :: "VersionTableType \<Rightarrow> VersionMapType \<Rightarrow> VersionMapType" where
  "process_rows [] result = result"
| "process_rows (row # table) result = process_rows table (process row result)"

definition create_op_set_id_version_map :: "VersionTableType \<Rightarrow> VersionMapType" where
  "create_op_set_id_version_map table = process_rows table Map.empty"

definition OP_SET_ID_VERSION_MAP :: VersionMapType where
  "OP_SET_ID_VERSION_MAP = create_op_set_id_version_map VERSION_TABLE"

text \<open>
  Modelled from the spec: the message type \<^verbatim>\<open>OperatorSetIdProto\<close> is declared outside
  \<^verbatim>\<open>helper.py\<close>; the specification gives it a domain and an integer version.
\<close>

record OperatorSetIdProto =
  domain :: string
  version :: int

definition find_min :: "VersionMapType \<Rightarrow> string \<Rightarrow> int \<Rightarrow> error + int" where
  "find_min m domain_name opset_version =
     (let key = (if domain_name \<noteq> [] then domain_name else ''ai.onnx'', opset_version)
      in case m key of Some v \<Rightarrow> Inr v | None \<Rightarrow> Inl UnsupportedOpset)"

text \<open>
  The list comprehension of line 74 evaluates \<^verbatim>\<open>find_min\<close> on the elements in order
  and stops at the first one that raises.
\<close>

fun find_min_all :: "VersionMapType \<Rightarrow> OperatorSetIdProto list \<Rightarrow> error + int list" where
  "find_min_all m [] = Inr []"
| "find_min_all m (x # xs) =
     (case find_min m (domain x) (version x) of
        Inl e \<Rightarrow> Inl e
      | Inr v \<Rightarrow> (case find_min_all m xs of Inl e \<Rightarrow> Inl e | Inr vs \<Rightarrow> Inr (v # vs)))"

text \<open>Python's \<^verbatim>\<open>max\<close> of a list with the first element \<open>v\<close>.\<close>

fun max_list :: "int \<Rightarrow> int list \<Rightarrow> int" where
  "max_list v [] = v"
| "max_list v (w # ws) = max_list (if v < w then w else v) ws"

text \<open>
  \<^verbatim>\<open>find_min_ir_version_for\<close> reads the map of the module; \<open>find_min_ir_version_in\<close> is its
  body with the map as an argument.
\<close>

definition find_min_ir_version_in :: "VersionMapType \<Rightarrow> OperatorSetIdProto list \<Rightarrow> error + int" where
  "find_min_ir_version_in m opsetidlist =
     (let default_min_version = 3
      in case opsetidlist of
           [] \<Rightarrow> Inr default_min_version
         | _ # _ \<Rightarrow>
             (case find_min_all m opsetidlist of
                Inl e \<Rightarrow> Inl e
              | Inr [] \<Rightarrow> Inl EmptySequence
              | Inr (v # vs) \<Rightarrow> Inr (max_list v vs)))"

definition find_min_ir_version_for :: "OperatorSetIdProto list \<Rightarrow> error + int" where
  "find_min_ir_version_for opsetidlist = find_min_ir_version_in OP_SET_ID_VERSION_MAP opsetidlist"

text \<open>
  Two notions used to state the properties of the version table: a row mentions a pair
  when \<^verbatim>\<open>zip\<close> of the three domain names with the row's trailing integers yields
  it, and the key of an operator-set id is its pair with the empty domain replaced by
  the default one.
\<close>

definition row_mentions :: "string \<times> int \<Rightarrow> VersionRowType \<Rightarrow> bool" where
  "row_mentions pair row = (pair \<in> set (zip DOMAINS (snd (snd row))))"

definition opset_key :: "OperatorSetIdProto \<Rightarrow> string \<times> int" where
  "opset_key x = (if domain x = [] then ''ai.onnx'' else domain x, version x)"

section \<open>Python values\<close>

text \<open>
  Text is a list of characters and a byte string is a list of 8-bit words. A character of
  Isabelle stands for one of the code points 0 to 255, so \<^verbatim>\<open>val.encode('utf-8')\<close> is
  one byte below 128 and two bytes from 128 on, and never fails.
\<close>

type_synonym bytes = "8 word list"



text \<open>\<^verbatim>\<open>sep.join(xs)\<close>.\<close>

fun join :: "string \<Rightarrow> string list \<Rightarrow> string" where
  "join sep [] = []"
| "join sep [x] = x"
| "join sep (x # y # ys) = x @ sep @ join sep (y # ys)"

text \<open>\<^verbatim>\<open>str(i)\<close> and \<^verbatim>\<open>'{:d}'.format(i)\<close> of an integer: its decimal digits.\<close>

fun str_nat :: "nat \<Rightarrow> string" where
  "str_nat n =
     (if n < 10 then [char_of (48 + n)] else str_nat (n div 10) @ [char_of (48 + n mod 10)])"

definition str_int :: "int \<Rightarrow> string" where
  "str_int i = (if i < 0 then CHR ''-'' # str_nat (nat (- i)) else str_nat (nat i))"

text \<open>Running a list of computations in order, stopping at the first that raises.\<close>

fun sequence :: "(error + 'a) list \<Rightarrow> error + 'a list" where
  "sequence [] = Inr []"
| "sequence (x # xs) =
     (case x of
        Inl e \<Rightarrow> Inl e
      | Inr v \<Rightarrow> (case sequence xs of Inl e \<Rightarrow> Inl e | Inr vs \<Rightarrow> Inr (v # vs)))"

text \<open>
  The values a caller hands to \<^verbatim>\<open>make_tensor\<close>: the elements of a sequence are
  floats, integers, complex numbers, byte strings or text, and \<^verbatim>\<open>vals\<close> itself is a
  sequence of them or, for raw storage, one byte string.
\<close>

datatype pyval = PyFloat real | PyInt int | PyComplex complex | PyBytes bytes | PyStr string

datatype tensor_vals = Seq "pyval list" | Bytes bytes

definition len_vals :: "tensor_vals \<Rightarrow> nat" where
  "len_vals v = (case v of Seq xs \<Rightarrow> length xs | Bytes b \<Rightarrow> length b)"

text \<open>Iterating and indexing a byte string yields its bytes as integers.\<close>

definition items :: "tensor_vals \<Rightarrow> pyval list" where
  "items v = (case v of Seq xs \<Rightarrow> xs | Bytes b \<Rightarrow> map (\<lambda>w. PyInt (uint w)) b)"

text \<open>The attributes \<^verbatim>\<open>.real\<close> and \<^verbatim>\<open>.imag\<close>, which numbers have and strings do not.\<close>

fun py_real :: "pyval \<Rightarrow> error + pyval" where
  "py_real (PyFloat x) = Inr (PyFloat x)"
| "py_real (PyInt i) = Inr (PyInt i)"
| "py_real (PyComplex c) = Inr (PyFloat (Re c))"
| "py_real (PyBytes b) = Inl AttributeError"
| "py_real (PyStr s) = Inl AttributeError"

fun py_imag :: "pyval \<Rightarrow> error + pyval" where
  "py_imag (PyFloat x) = Inr (PyFloat 0)"
| "py_imag (PyInt i) = Inr (PyInt 0)"
| "py_imag (PyComplex c) = Inr (PyFloat (Im c))"
| "py_imag (PyBytes b) = Inl AttributeError"
| "py_imag (PyStr s) = Inl AttributeError"

section \<open>Tensors\<close>

text \<open>
  Modelled from the spec: the element-type codes \<^verbatim>\<open>TensorProto.DataType\<close> belong to the
  message schema, which is declared outside \<^verbatim>\<open>helper.py\<close>. \<^verbatim>\<open>DataType_Name\<close> is the
  schema's \<^verbatim>\<open>TensorProto.DataType.Name\<close>.
\<close>

datatype DataType =
    UNDEFINED | FLOAT | UINT8 | INT8 | UINT16 | INT16 | INT32 | INT64 | STRING | BOOL
  | FLOAT16 | DOUBLE | UINT32 | UINT64 | COMPLEX64 | COMPLEX128 | BFLOAT16

fun DataType_Name :: "DataType \<Rightarrow> string" where
  "DataType_Name UNDEFINED = ''UNDEFINED''"
| "DataType_Name FLOAT = ''FLOAT''"
| "DataType_Name UINT8 = ''UINT8''"
| "DataType_Name INT8 = ''INT8''"
| "DataType_Name UINT16 = ''UINT16''"
| "DataType_Name INT16 = ''INT16''"
| "DataType_Name INT32 = ''INT32''"
| "DataType_Name INT64 = ''INT64''"
| "DataType_Name STRING = ''STRING''"
| "DataType_Name BOOL = ''BOOL''"
| "DataType_Name FLOAT16 = ''FLOAT16''"
| "DataType_Name DOUBLE = ''DOUBLE''"
| "DataType_Name UINT32 = ''UINT32''"
| "DataType_Name UINT64 = ''UINT64''"
| "DataType_Name COMPLEX64 = ''COMPLEX64''"
| "DataType_Name COMPLEX128 = ''COMPLEX128''"
| "DataType_Name BFLOAT16 = ''BFLOAT16''"

text \<open>
  Modelled from the spec: the message type \<^verbatim>\<open>TensorProto\<close> is declared outside
  \<^verbatim>\<open>helper.py\<close>. It has a name, an element type, the dims, one typed field per
  storage category and the raw byte buffer. A typed field keeps the values it is
  extended with as they are.
\<close>

record TensorProto =
  tensor_name :: string
  data_type :: DataType
  dims :: "int list"
  float_data :: "pyval list"
  int32_data :: "pyval list"
  string_data :: "pyval list"
  int64_data :: "pyval list"
  double_data :: "pyval list"
  uint64_data :: "pyval list"
  raw_data :: "bytes option"

definition TensorProto_new :: TensorProto where
  "TensorProto_new =
     \<lparr>tensor_name = [], data_type = UNDEFINED, dims = [], float_data = [], int32_data = [],
      string_data = [], int64_data = [], double_data = [], uint64_data = [], raw_data = None\<rparr>"

text \<open>\<^verbatim>\<open>getattr(tensor, field)\<close> for the typed fields, and \<^verbatim>\<open>getattr(tensor, field).extend(vs)\<close>.\<close>

definition getattr_field :: "TensorProto \<Rightarrow> string \<Rightarrow> error + pyval list" where
  "getattr_field t field =
     (if field = ''float_data'' then Inr (float_data t)
      else if field = ''int32_data'' then Inr (int32_data t)
      else if field = ''string_data'' then Inr (string_data t)
      else if field = ''int64_data'' then Inr (int64_data t)
      else if field = ''double_data'' then Inr (double_data t)
      else if field = ''uint64_data'' then Inr (uint64_data t)
      else Inl AttributeError)"

definition extend_field :: "TensorProto \<Rightarrow> string \<Rightarrow> pyval list \<Rightarrow> error + TensorProto" where
  "extend_field t field vs =
     (if field = ''float_data'' then Inr (t\<lparr>float_data := float_data t @ vs\<rparr>)
      else if field = ''int32_data'' then Inr (t\<lparr>int32_data := int32_data t @ vs\<rparr>)
      else if field = ''string_data'' then Inr (t\<lparr>string_data := string_data t @ vs\<rparr>)
      else if field = ''int64_data'' then Inr (t\<lparr>int64_data := int64_data t @ vs\<rparr>)
      else if field = ''double_data'' then Inr (t\<lparr>double_data := double_data t @ vs\<rparr>)
      else if field = ''uint64_data'' then Inr (t\<lparr>uint64_data := uint64_data t @ vs\<rparr>)
      else Inl AttributeError)"

text \<open>
  The tables of \<^verbatim>\<open>onnx.mapping\<close> are not part of \<^verbatim>\<open>helper.py\<close>: they are parameters
  of the functions that read them. A key without an entry raises \<^verbatim>\<open>KeyError\<close>.
  \<open>itemsize\<close> is \<^verbatim>\<open>TENSOR_TYPE_TO_NP_TYPE[data_type].itemsize\<close>.
\<close>

record mapping =
  itemsize :: "DataType \<rightharpoonup> nat"
  TENSOR_TYPE_TO_STORAGE_TENSOR_TYPE :: "DataType \<rightharpoonup> DataType"
  STORAGE_TENSOR_TYPE_TO_FIELD :: "DataType \<rightharpoonup> string"

definition lookup :: "('k \<rightharpoonup> 'v) \<Rightarrow> 'k \<Rightarrow> error + 'v" where
  "lookup table k = (case table k of None \<Rightarrow> Inl KeyError | Some v \<Rightarrow> Inr v)"

definition split_complex_to_pairs :: "tensor_vals \<Rightarrow> error + pyval list" where
  "split_complex_to_pairs ca =
     sequence
       (map (\<lambda>i. if i mod 2 = 0 then py_real (items ca ! (i div 2))
                 else py_imag (items ca ! (i div 2)))
          [0 ..< len_vals ca * 2])"

text \<open>The loop of lines 240 and 241.\<close>

fun size_loop :: "int \<Rightarrow> int list \<Rightarrow> int" where
  "size_loop sz [] = sz"
| "size_loop sz (d # ds) = size_loop (sz * d) ds"

text \<open>
  Line 250, \<^verbatim>\<open>tensor.raw_data = vals\<close>: the message layer takes a byte string and refuses
  a list.
\<close>

definition set_raw_data :: "TensorProto \<Rightarrow> tensor_vals \<Rightarrow> error + TensorProto" where
  "set_raw_data t v =
     (case v of Bytes b \<Rightarrow> Inr (t\<lparr>raw_data := Some b\<rparr>) | Seq xs \<Rightarrow> Inl TypeError)"

text \<open>Lines 239 to 241: the number of elements, or of bytes, that \<^verbatim>\<open>vals\<close> must have.\<close>

definition expected_size :: "mapping \<Rightarrow> DataType \<Rightarrow> int list \<Rightarrow> bool \<Rightarrow> error + int" where
  "expected_size M dt ds raw =
     (case (if \<not> raw then Inr 1 else map_sum id int (lookup (itemsize M) dt)) of
        Inl e \<Rightarrow> Inl e
      | Inr size0 \<Rightarrow> Inr (size_loop size0 ds))"

text \<open>Lines 245 to 254: complex elements are split, then the elements are stored.\<close>

definition store_values ::
  "mapping \<Rightarrow> TensorProto \<Rightarrow> DataType \<Rightarrow> tensor_vals \<Rightarrow> bool \<Rightarrow> error + TensorProto" where
  "store_values M tensor dt vals raw =
     (case (if dt = COMPLEX64 \<or> dt = COMPLEX128
            then map_sum id Seq (split_complex_to_pairs vals)
            else Inr vals) of
        Inl e \<Rightarrow> Inl e
      | Inr vals' \<Rightarrow>
          if raw then set_raw_data tensor vals'
          else
            case lookup (TENSOR_TYPE_TO_STORAGE_TENSOR_TYPE M) dt of
              Inl e \<Rightarrow> Inl e
            | Inr storage \<Rightarrow>
                (case lookup (STORAGE_TENSOR_TYPE_TO_FIELD M) storage of
                   Inl e \<Rightarrow> Inl e
                 | Inr field \<Rightarrow> extend_field tensor field (items vals')))"

definition make_tensor ::
  "mapping \<Rightarrow> string \<Rightarrow> DataType \<Rightarrow> int list \<Rightarrow> tensor_vals \<Rightarrow> bool \<Rightarrow> error + TensorProto" where
  "make_tensor M name dt ds vals raw =
     (let tensor = TensorProto_new\<lparr>data_type := dt, tensor_name := name\<rparr>
      in if dt = STRING \<and> raw then Inl InvalidRawStringTensor
         else
           case expected_size M dt ds raw of
             Inl e \<Rightarrow> Inl e
           | Inr sz \<Rightarrow>
               if int (len_vals vals) \<noteq> sz then Inl SizeMismatch
               else
                 case store_values M tensor dt vals raw of
                   Inl e \<Rightarrow> Inl e
                 | Inr tensor' \<Rightarrow> Inr (tensor'\<lparr>dims := dims tensor' @ ds\<rparr>))"

text \<open>
  Notions used to state the properties of \<open>make_tensor\<close>: the names of the typed
  fields; the count the specification expects, the product of the dims (1 for no
  dims), times the byte width for raw storage; the two real entries a numeric element
  is split into; and the conditions under which values that are not complex can be
  stored, a byte string for raw storage and otherwise a typed field named by the tables.
\<close>

definition typed_fields :: "string list" where
  "typed_fields =
     [''float_data'', ''int32_data'', ''string_data'', ''int64_data'', ''double_data'',
      ''uint64_data'']"

definition expected_count :: "mapping \<Rightarrow> DataType \<Rightarrow> int list \<Rightarrow> bool \<Rightarrow> int option" where
  "expected_count M dt ds raw =
     (if raw then map_option (\<lambda>w. prod_list ds * int w) (itemsize M dt)
      else Some (prod_list ds))"

definition real_part :: "pyval \<Rightarrow> pyval" where
  "real_part x = (case x of PyComplex c \<Rightarrow> PyFloat (Re c) | _ \<Rightarrow> x)"

definition imag_part :: "pyval \<Rightarrow> pyval" where
  "imag_part x = (case x of PyComplex c \<Rightarrow> PyFloat (Im c) | PyInt i \<Rightarrow> PyInt 0 | _ \<Rightarrow> PyFloat 0)"

definition is_number :: "pyval \<Rightarrow> bool" where
  "is_number x = (case x of PyBytes b \<Rightarrow> False | PyStr s \<Rightarrow> False | _ \<Rightarrow> True)"

text \<open>
  An excerpt of the tables of \<^verbatim>\<open>onnx.mapping\<close>, on which the examples are evaluated.
\<close>

definition M0 :: mapping where
  "M0 = \<lparr>itemsize = [FLOAT \<mapsto> 4, COMPLEX64 \<mapsto> 8],
         TENSOR_TYPE_TO_STORAGE_TENSOR_TYPE = [FLOAT \<mapsto> FLOAT, COMPLEX64 \<mapsto> FLOAT],
         STORAGE_TENSOR_TYPE_TO_FIELD = [FLOAT \<mapsto> ''float_data'']\<rparr>"

definition storable :: "mapping \<Rightarrow> DataType \<Rightarrow> tensor_vals \<Rightarrow> bool \<Rightarrow> bool" where
  "storable M dt vals raw =
     (dt \<noteq> COMPLEX64 \<and> dt \<noteq> COMPLEX128 \<and>
      (if raw then (case vals of Bytes b \<Rightarrow> True | Seq xs \<Rightarrow> False)
       else (case TENSOR_TYPE_TO_STORAGE_TENSOR_TYPE M dt of
               None \<Rightarrow> False
             | Some storage \<Rightarrow>
                 (case STORAGE_TENSOR_TYPE_TO_FIELD M storage of
                    None \<Rightarrow> False
                  | Some field \<Rightarrow> field \<in> set typed_fields))))"

section \<open>Types, shapes and value infos\<close>

text \<open>
  Modelled from the spec: the message types \<^verbatim>\<open>TensorShapeProto.Dimension\<close>,
  \<^verbatim>\<open>TypeProto\<close> and \<^verbatim>\<open>ValueInfoProto\<close> are declared outside \<^verbatim>\<open>helper.py\<close>. A
  dimension is a concrete size, a symbolic name or unset, with an optional denotation.
  A type is unset or one of the alternatives of its \<^verbatim>\<open>oneof value\<close>; a tensor type
  and a sparse tensor type carry an element type and a shape that may be absent, and an
  absent shape differs from a present shape without dimensions.
\<close>

datatype dim_oneof = Dim_unset | Dim_value int | Dim_param string

record Dimension =
  dim_which :: dim_oneof
  denotation :: "string option"

datatype TypeProto =
    Type_unset
  | Tensor_type DataType "Dimension list option"
  | Sparse_tensor_type DataType "Dimension list option"
  | Sequence_type TypeProto
  | Map_type

record ValueInfoProto =
  value_name :: string
  value_doc_string :: "string option"
  value_type :: TypeProto

text \<open>
  An entry of the \<^verbatim>\<open>shape\<close> argument: \<^verbatim>\<open>None\<close>, an integer, text, or a value of any
  other type.
\<close>

datatype shape_item = Item_None | Item_int int | Item_text string | Item_other

text \<open>The truth value of an optional list: \<^verbatim>\<open>None\<close> and the empty list are false.\<close>

definition truthy :: "'a list option \<Rightarrow> bool" where
  "truthy xs = (case xs of None \<Rightarrow> False | Some [] \<Rightarrow> False | Some (y # ys) \<Rightarrow> True)"

text \<open>\<^verbatim>\<open>xs[i]\<close> for an index that is not negative.\<close>

definition index :: "'a list \<Rightarrow> nat \<Rightarrow> error + 'a" where
  "index xs i = (if i < length xs then Inr (xs ! i) else Inl IndexError)"

text \<open>Lines 471 to 481: the dimension added for one entry of the shape.\<close>

fun add_dim :: "shape_item \<Rightarrow> error + Dimension" where
  "add_dim Item_None = Inr \<lparr>dim_which = Dim_unset, denotation = None\<rparr>"
| "add_dim (Item_int d) = Inr \<lparr>dim_which = Dim_value d, denotation = None\<rparr>"
| "add_dim (Item_text d) = Inr \<lparr>dim_which = Dim_param d, denotation = None\<rparr>"
| "add_dim Item_other = Inl InvalidShapeItem"

text \<open>The loop of lines 470 to 484 over \<^verbatim>\<open>enumerate(shape)\<close>, from the index \<open>i\<close> on.\<close>

fun dims_loop :: "string list option \<Rightarrow> nat \<Rightarrow> shape_item list \<Rightarrow> error + Dimension list" where
  "dims_loop shape_denotation i [] = Inr []"
| "dims_loop shape_denotation i (d # rest) =
     (case add_dim d of
        Inl e \<Rightarrow> Inl e
      | Inr new_dim \<Rightarrow>
          (case (if truthy shape_denotation
                 then map_sum id (\<lambda>den. new_dim\<lparr>denotation := Some den\<rparr>)
                        (index (the shape_denotation) i)
                 else Inr new_dim) of
             Inl e \<Rightarrow> Inl e
           | Inr new_dim' \<Rightarrow>
               (case dims_loop shape_denotation (Suc i) rest of
                  Inl e \<Rightarrow> Inl e
                | Inr new_dims \<Rightarrow> Inr (new_dim' # new_dims))))"

text \<open>
  Lines 462 to 484, the same as lines 515 to 537: the dimensions of a shape that is not
  \<^verbatim>\<open>None\<close>.
\<close>

definition shape_dims :: "shape_item list \<Rightarrow> string list option \<Rightarrow> error + Dimension list" where
  "shape_dims shape shape_denotation =
     (if truthy shape_denotation \<and> length (the shape_denotation) \<noteq> length shape
      then Inl DenotationLengthMismatch
      else dims_loop shape_denotation 0 shape)"

definition make_tensor_value_info ::
  "string \<Rightarrow> DataType \<Rightarrow> shape_item list option \<Rightarrow> string \<Rightarrow> string list option \<Rightarrow>
   error + ValueInfoProto" where
  "make_tensor_value_info name elem_type shape doc_string shape_denotation =
     (let value_info_proto =
            \<lparr>value_name = name,
             value_doc_string = (if doc_string \<noteq> [] then Some doc_string else None),
             value_type = Tensor_type elem_type None\<rparr>
      in case shape of
           None \<Rightarrow> Inr value_info_proto
         | Some sh \<Rightarrow>
             (case shape_dims sh shape_denotation of
                Inl e \<Rightarrow> Inl e
              | Inr new_dims \<Rightarrow>
                  Inr (value_info_proto\<lparr>value_type := Tensor_type elem_type (Some new_dims)\<rparr>)))"

definition make_sparse_tensor_value_info ::
  "string \<Rightarrow> DataType \<Rightarrow> shape_item list option \<Rightarrow> string \<Rightarrow> string list option \<Rightarrow>
   error + ValueInfoProto" where
  "make_sparse_tensor_value_info name elem_type shape doc_string shape_denotation =
     (let value_info_proto =
            \<lparr>value_name = name,
             value_doc_string = (if doc_string \<noteq> [] then Some doc_string else None),
             value_type = Sparse_tensor_type elem_type None\<rparr>
      in case shape of
           None \<Rightarrow> Inr value_info_proto
         | Some sh \<Rightarrow>
             (case shape_dims sh shape_denotation of
                Inl e \<Rightarrow> Inl e
              | Inr new_dims \<Rightarrow>
                  Inr (value_info_proto\<lparr>value_type := Sparse_tensor_type elem_type (Some new_dims)\<rparr>)))"

text \<open>The printer of types and value infos, lines 650 to 674.\<close>

definition printable_dim :: "Dimension \<Rightarrow> error + string" where
  "printable_dim d =
     (case dim_which d of
        Dim_unset \<Rightarrow> Inl AssertionError
      | Dim_value v \<Rightarrow> Inr (str_int v)
      | Dim_param p \<Rightarrow> Inr p)"

fun printable_type :: "TypeProto \<Rightarrow> error + string" where
  "printable_type (Tensor_type elem_type shape) =
     (let s = DataType_Name elem_type
      in case shape of
           None \<Rightarrow> Inr s
         | Some [] \<Rightarrow> Inr (s @ '', scalar'')
         | Some (d # ds) \<Rightarrow>
             (case sequence (map printable_dim (d # ds)) of
                Inl e \<Rightarrow> Inl e
              | Inr strs \<Rightarrow> Inr (s @ '', '' @ join ''x'' strs)))"
| "printable_type Type_unset = Inr []"
| "printable_type (Sparse_tensor_type elem_type shape) = Inr ''Unknown type sparse_tensor_type''"
| "printable_type (Sequence_type elem) = Inr ''Unknown type sequence_type''"
| "printable_type Map_type = Inr ''Unknown type map_type''"

text \<open>
  Line 672 tests \<^verbatim>\<open>v.type\<close>, a message, which is true whether or not a type is set, so
  the brackets are always printed.
\<close>

definition printable_value_info :: "ValueInfoProto \<Rightarrow> error + string" where
  "printable_value_info v =
     (let s = ''%'' @ value_name v
      in case printable_type (value_type v) of
           Inl e \<Rightarrow> Inl e
         | Inr ty \<Rightarrow> Inr (s @ ''['' @ ty @ '']''))"

text \<open>
  The dimension the builders make from a valid entry of the shape and a denotation.
\<close>

fun item_which :: "shape_item \<Rightarrow> dim_oneof" where
  "item_which (Item_int d) = Dim_value d"
| "item_which (Item_text d) = Dim_param d"
| "item_which Item_None = Dim_unset"
| "item_which Item_other = Dim_unset"

definition valid_item :: "shape_item \<Rightarrow> bool" where
  "valid_item d = (d \<noteq> Item_other)"

definition denoted_dim :: "shape_item \<Rightarrow> string \<Rightarrow> Dimension" where
  "denoted_dim d den = \<lparr>dim_which = item_which d, denotation = Some den\<rparr>"

section \<open>Attributes, nodes and graphs\<close>

text \<open>
  Modelled from the spec: the message types \<^verbatim>\<open>SparseTensorProto\<close>, \<^verbatim>\<open>AttributeProto\<close>,
  \<^verbatim>\<open>NodeProto\<close> and \<^verbatim>\<open>GraphProto\<close> are declared outside \<^verbatim>\<open>helper.py\<close>. An attribute
  has a name, an optional documentation string, a type tag and one field per variant:
  a singular field is present or absent (\<^verbatim>\<open>HasField\<close>), a repeated field is a list.
  A graph holds nodes, a node holds attributes and an attribute may hold graphs.
\<close>

record SparseTensorProto =
  sparse_values :: TensorProto
  sparse_indices :: TensorProto
  sparse_dims :: "int list"

datatype AttributeType =
    Attr_UNDEFINED | Attr_FLOAT | Attr_INT | Attr_STRING | Attr_TENSOR | Attr_GRAPH
  | Attr_SPARSE_TENSOR | Attr_FLOATS | Attr_INTS | Attr_STRINGS | Attr_TENSORS | Attr_GRAPHS
  | Attr_SPARSE_TENSORS

datatype AttributeProto = AttributeProto
    (attr_name: string) (attr_doc_string: "string option") (attr_type: AttributeType)
    (attr_f: "real option") (attr_i: "int option") (attr_s: "bytes option")
    (attr_t: "TensorProto option") (attr_g: "GraphProto option")
    (attr_sparse_tensor: "SparseTensorProto option")
    (attr_floats: "real list") (attr_ints: "int list") (attr_strings: "bytes list")
    (attr_tensors: "TensorProto list") (attr_graphs: "GraphProto list")
    (attr_sparse_tensors: "SparseTensorProto list")
and NodeProto = NodeProto
    (node_op_type: string) (node_input: "string list") (node_output: "string list")
    (node_name: "string option") (node_domain: "string option")
    (node_attribute: "AttributeProto list") (node_doc_string: "string option")
and GraphProto = GraphProto
    (graph_name: string) (graph_node: "NodeProto list")
    (graph_input: "ValueInfoProto list") (graph_output: "ValueInfoProto list")
    (graph_initializer: "TensorProto list")
    (graph_sparse_initializer: "SparseTensorProto list")
    (graph_value_info: "ValueInfoProto list") (graph_doc_string: "string option")


definition GraphProto_new :: GraphProto where
  "GraphProto_new = GraphProto [] [] [] [] [] [] [] None"

















section \<open>Attribute codec\<close>



















text \<open>
  The attribute values of the specification: twelve variants, each with its payload.
  \<open>encode_spec\<close> is the disambiguation order of the specification, first match wins;
  \<open>attribute_record\<close> is the record with the tag of a variant and that variant alone
  populated; \<open>host_of\<close> is the host value an attribute value stands for.
\<close>

datatype AttributeValue =
    VFloat real
  | VInt int
  | VString bytes
  | VTensor TensorProto
  | VSparseTensor SparseTensorProto
  | VGraph GraphProto
  | VFloats "real list"
  | VInts "int list"
  | VStrings "bytes list"
  | VTensors "TensorProto list"
  | VSparseTensors "SparseTensorProto list"
  | VGraphs "GraphProto list"



fun attribute_record :: "string \<Rightarrow> string option \<Rightarrow> AttributeValue \<Rightarrow> AttributeProto" where
  "attribute_record key doc (VFloat x) =
     AttributeProto key doc Attr_FLOAT (Some x) None None None None None [] [] [] [] [] []"
| "attribute_record key doc (VInt i) =
     AttributeProto key doc Attr_INT None (Some i) None None None None [] [] [] [] [] []"
| "attribute_record key doc (VString b) =
     AttributeProto key doc Attr_STRING None None (Some b) None None None [] [] [] [] [] []"
| "attribute_record key doc (VTensor t) =
     AttributeProto key doc Attr_TENSOR None None None (Some t) None None [] [] [] [] [] []"
| "attribute_record key doc (VSparseTensor t) =
     AttributeProto key doc Attr_SPARSE_TENSOR None None None None None (Some t) [] [] [] [] [] []"
| "attribute_record key doc (VGraph g) =
     AttributeProto key doc Attr_GRAPH None None None None (Some g) None [] [] [] [] [] []"
| "attribute_record key doc (VFloats xs) =
     AttributeProto key doc Attr_FLOATS None None None None None None xs [] [] [] [] []"
| "attribute_record key doc (VInts xs) =
     AttributeProto key doc Attr_INTS None None None None None None [] xs [] [] [] []"
| "attribute_record key doc (VStrings xs) =
     AttributeProto key doc Attr_STRINGS None None None None None None [] [] xs [] [] []"
| "attribute_record key doc (VTensors xs) =
     AttributeProto key doc Attr_TENSORS None None None None None None [] [] [] xs [] []"
| "attribute_record key doc (VSparseTensors xs) =
     AttributeProto key doc Attr_SPARSE_TENSORS None None None None None None [] [] [] [] [] xs"
| "attribute_record key doc (VGraphs xs) =
     AttributeProto key doc Attr_GRAPHS None None None None None None [] [] [] [] xs []"


section \<open>Models\<close>

text \<open>
  Modelled from the spec: the message type \<^verbatim>\<open>ModelProto\<close> is declared outside
  \<^verbatim>\<open>helper.py\<close>. It has the IR version, the graph and the operator-set imports; the
  other fields, which \<^verbatim>\<open>make_model\<close> assigns by name, are kept as a map from the name
  to the value.
\<close>

datatype field_value = Field_int int | Field_text string

record ModelProto =
  ir_version :: int
  model_graph :: GraphProto
  opset_import :: "OperatorSetIdProto list"
  other_fields :: "string \<rightharpoonup> field_value"

text \<open>
  \<^verbatim>\<open>IR_VERSION\<close> and \<^verbatim>\<open>defs.onnx_opset_version()\<close> are constants of the package, from
  outside \<^verbatim>\<open>helper.py\<close>: they are parameters.
\<close>

record onnx_constants =
  IR_VERSION :: int
  onnx_opset_version :: int

text \<open>
  The keyword arguments \<^verbatim>\<open>**kwargs\<close>: the entry \<^verbatim>\<open>ir_version\<close> if there is one, the
  entry \<^verbatim>\<open>opset_imports\<close> if there is one that is not \<^verbatim>\<open>None\<close> (both functions treat
  the value \<^verbatim>\<open>None\<close> as a missing entry), and the remaining entries in their order.
\<close>

record kwargs =
  kw_ir_version :: "int option"
  kw_opset_imports :: "OperatorSetIdProto list option"
  kw_rest :: "(string \<times> field_value) list"

text \<open>The loop of lines 186 to 188 over the remaining entries.\<close>

fun setattr_all :: "ModelProto \<Rightarrow> (string \<times> field_value) list \<Rightarrow> ModelProto" where
  "setattr_all model [] = model"
| "setattr_all model ((k, v) # rest) =
     setattr_all (model\<lparr>other_fields := (other_fields model)(k \<mapsto> v)\<rparr>) rest"

definition make_model :: "onnx_constants \<Rightarrow> GraphProto \<Rightarrow> kwargs \<Rightarrow> ModelProto" where
  "make_model C graph kw =
     (let model = \<lparr>ir_version = IR_VERSION C, model_graph = graph, opset_import = [],
                   other_fields = Map.empty\<rparr>;
          model1 = (case kw_opset_imports kw of
                      Some opset_imports \<Rightarrow>
                        model\<lparr>opset_import := opset_import model @ opset_imports\<rparr>
                    | None \<Rightarrow>
                        model\<lparr>opset_import := opset_import model @
                          [\<lparr>domain = [], version = onnx_opset_version C\<rparr>]\<rparr>);
          model2 = (case kw_ir_version kw of
                      Some v \<Rightarrow> model1\<lparr>ir_version := v\<rparr>
                    | None \<Rightarrow> model1)
      in setattr_all model2 (kw_rest kw))"

definition make_model_gen_version ::
  "onnx_constants \<Rightarrow> GraphProto \<Rightarrow> kwargs \<Rightarrow> error + ModelProto" where
  "make_model_gen_version C graph kw =
     (if kw_ir_version kw = None
      then
        (let imports = (case kw_opset_imports kw of Some opset_imports \<Rightarrow> opset_imports | None \<Rightarrow> [])
         in case find_min_ir_version_for imports of
              Inl e \<Rightarrow> Inl e
            | Inr v \<Rightarrow> Inr (make_model C graph (kw\<lparr>kw_ir_version := Some v\<rparr>)))
      else Inr (make_model C graph kw))"

text \<open>
  The constants of release 1.9.0, the last row of the version table, on which the
  examples are evaluated.
\<close>

definition C0 :: onnx_constants where
  "C0 = \<lparr>IR_VERSION = 7, onnx_opset_version = 14\<rparr>"

section \<open>Printer\<close>

text \<open>
  The formatting functions of Python that the printer calls are parameters:
  \<^verbatim>\<open>'{:.15g}'.format(f)\<close>, \<^verbatim>\<open>repr(s)\<close> of text,
  \<^verbatim>\<open>s.decode('utf-8', errors='ignore')\<close> and \<^verbatim>\<open>str(xs)\<close> of a typed field of a tensor.
\<close>

record py_builtins =
  format_float :: "real \<Rightarrow> string"
  repr_text :: "string \<Rightarrow> string"
  decode_ignore :: "bytes \<Rightarrow> string"
  str_repeated :: "pyval list \<Rightarrow> string"

definition newline :: string where
  "newline = [CHR 0x0A]"

text \<open>\<^verbatim>\<open>_sanitize_str\<close> on a byte string, the only argument the printer passes.\<close>

definition sanitize_str :: "py_builtins \<Rightarrow> bytes \<Rightarrow> string" where
  "sanitize_str P s =
     (let sanitized = decode_ignore P s
      in if length sanitized < 64 then sanitized
         else take 64 sanitized @ ''...<+len='' @ str_int (int (length sanitized) - 64) @ ''>'')"

definition str_list :: "('a \<Rightarrow> string) \<Rightarrow> 'a list \<Rightarrow> string" where
  "str_list str_elem xs = ''['' @ join '', '' (map str_elem xs) @ '']''"

text \<open>Lines 637 to 639: one placeholder per graph, with a comma after all but the last.\<close>

fun graph_items :: "GraphProto list \<Rightarrow> string list" where
  "graph_items [] = []"
| "graph_items [g] = [''<graph '' @ graph_name g @ ''>'']"
| "graph_items (g # h # gs) = (''<graph '' @ graph_name g @ ''>,'') # graph_items (h # gs)"

text \<open>
  \<^verbatim>\<open>printable_attribute\<close> with \<^verbatim>\<open>subgraphs=True\<close>: the text and the graphs passed up to the
  caller. With \<^verbatim>\<open>subgraphs=False\<close> the result is the text alone.
\<close>

definition printable_attribute ::
  "py_builtins \<Rightarrow> mapping \<Rightarrow> AttributeProto \<Rightarrow> error + string \<times> GraphProto list" where
  "printable_attribute P M attr =
     (let content = [attr_name attr, ''='']
      in if attr_f attr \<noteq> None
           then Inr (join '' '' (content @ [format_float P (the (attr_f attr))]), [])
         else if attr_i attr \<noteq> None
           then Inr (join '' '' (content @ [str_int (the (attr_i attr))]), [])
         else if attr_s attr \<noteq> None
           then Inr (join '' '' (content @ [repr_text P (sanitize_str P (the (attr_s attr)))]), [])
         else if attr_t attr \<noteq> None
           then (let t = the (attr_t attr)
                 in if length (dims t) > 0 then Inr (join '' '' (content @ [''<Tensor>'']), [])
                    else
                      case lookup (STORAGE_TENSOR_TYPE_TO_FIELD M) (data_type t) of
                        Inl e \<Rightarrow> Inl e
                      | Inr field \<Rightarrow>
                          (case getattr_field t field of
                             Inl e \<Rightarrow> Inl e
                           | Inr vs \<Rightarrow>
                               Inr (join '' ''
                                     (content @ [''<Scalar Tensor '' @ str_repeated P vs @ ''>'']),
                                    [])))
         else if attr_g attr \<noteq> None
           then Inr (join '' ''
                      (content @ [''<graph '' @ graph_name (the (attr_g attr)) @ ''>'']),
                     [the (attr_g attr)])
         else if attr_floats attr \<noteq> []
           then Inr (join '' '' (content @ [str_list (format_float P) (attr_floats attr)]), [])
         else if attr_ints attr \<noteq> []
           then Inr (join '' '' (content @ [str_list str_int (attr_ints attr)]), [])
         else if attr_strings attr \<noteq> []
           then Inr (join '' ''
                      (content @
                       [str_list (repr_text P) (map (sanitize_str P) (attr_strings attr))]),
                     [])
         else if attr_tensors attr \<noteq> []
           then Inr (join '' '' (content @ [''[<Tensor>, ...]'']), [])
         else if attr_graphs attr \<noteq> []
           then Inr (join '' '' (content @ [''[''] @ graph_items (attr_graphs attr) @ ['']'']),
                     attr_graphs attr)
         else Inr (join '' '' (content @ [''<Unknown>'']), []))"

definition printable_tensor_proto :: "TensorProto \<Rightarrow> string" where
  "printable_tensor_proto t =
     (let s = ''%'' @ tensor_name t @ ''['' @ DataType_Name (data_type t);
          s1 = (if length (dims t) \<noteq> 0 then s @ '', '' @ join ''x'' (map str_int (dims t))
                else s @ '', scalar'')
      in s1 @ '']'')"

text \<open>\<^verbatim>\<open>printable_node\<close> with \<^verbatim>\<open>subgraphs=True\<close>.\<close>

definition printable_node ::
  "py_builtins \<Rightarrow> mapping \<Rightarrow> NodeProto \<Rightarrow> string \<Rightarrow> error + string \<times> GraphProto list" where
  "printable_node P M node prefix =
     (let content =
            (if length (node_output node) \<noteq> 0
             then [join '', '' (map (\<lambda>name. ''%'' @ name) (node_output node)), ''='']
             else [])
      in case sequence (map (printable_attribute P M) (node_attribute node)) of
           Inl e \<Rightarrow> Inl e
         | Inr printed \<Rightarrow>
             (let graphs = concat (map snd printed);
                  printed_attrs = map fst printed;
                  printed_attributes = join '', '' (sort printed_attrs);
                  printed_inputs = join '', '' (map (\<lambda>name. ''%'' @ name) (node_input node));
                  content1 =
                    content @
                    [if node_attribute node \<noteq> []
                     then node_op_type node @ ''['' @ printed_attributes @ '']('' @
                          printed_inputs @ '')''
                     else node_op_type node @ ''('' @ printed_inputs @ '')'']
              in Inr (prefix @ join '' '' content1, graphs)))"

text \<open>
  Lines 724 to 761 of \<^verbatim>\<open>printable_graph\<close>: the lines of the inputs and initializers, and
  the header words not yet written.
\<close>

definition graph_header ::
  "GraphProto \<Rightarrow> string \<Rightarrow> error + string list \<times> string list" where
  "graph_header graph prefix =
     (let header = [''graph'', graph_name graph];
          initializers = set (map tensor_name (graph_initializer graph))
      in if length (graph_input graph) \<noteq> 0
         then
           case sequence (map printable_value_info (graph_input graph)) of
             Inl e \<Rightarrow> Inl e
           | Inr strs \<Rightarrow>
               (let header1 = header @ [''(''];
                    printed = zip (graph_input graph) strs;
                    in_strs =
                      map snd (filter (\<lambda>(inp, s). value_name inp \<notin> initializers) printed);
                    in_with_init_strs =
                      map snd (filter (\<lambda>(inp, s). value_name inp \<in> initializers) printed);
                    (content2, header2) =
                      (if in_strs \<noteq> []
                       then ([prefix @ join '' '' header1] @
                             map (\<lambda>line. prefix @ ''  '' @ line) in_strs, [])
                       else ([], header1));
                    header3 = header2 @ ['')''];
                    (content4, header4) =
                      (if in_with_init_strs \<noteq> []
                       then (content2 @
                             [prefix @ join '' ''
                                (header3 @ [''optional inputs with matching initializers (''])] @
                             map (\<lambda>line. prefix @ ''  '' @ line) in_with_init_strs,
                             ['')''])
                       else (content2, header3));
                    (content5, header5) =
                      (if length in_with_init_strs < card initializers
                       then
                         (let graph_inputs = set (map value_name (graph_input graph));
                              init_strs =
                                map printable_tensor_proto
                                  (filter (\<lambda>i. tensor_name i \<notin> graph_inputs)
                                     (graph_initializer graph))
                          in (content4 @ [prefix @ join '' '' (header4 @ [''initializers (''])] @
                              map (\<lambda>line. prefix @ ''  '' @ line) init_strs,
                              ['')'']))
                       else (content4, header4))
                in Inr (content5, header5))
         else Inr ([], header))"

text \<open>
  Lines 721 to 779: the lines of the graph up to its closing brace, and the graphs its
  nodes passed up, in the order of the nodes.
\<close>

definition graph_body ::
  "py_builtins \<Rightarrow> mapping \<Rightarrow> GraphProto \<Rightarrow> string \<Rightarrow> error + string list \<times> GraphProto list" where
  "graph_body P M graph prefix =
     (let indent = prefix @ ''  ''
      in case graph_header graph prefix of
           Inl e \<Rightarrow> Inl e
         | Inr (content0, header0) \<Rightarrow>
             (let header = header0 @ [''{''];
                  content1 = content0 @ [prefix @ join '' '' header]
              in case sequence (map (\<lambda>node. printable_node P M node indent) (graph_node graph)) of
                   Inl e \<Rightarrow> Inl e
                 | Inr printed \<Rightarrow>
                     (let content2 = content1 @ map fst printed;
                          graphs = concat (map snd printed);
                          tail = (if length (graph_output graph) \<noteq> 0
                                  then [''return'',
                                        join '', ''
                                          (map (\<lambda>out. ''%'' @ value_name out) (graph_output graph))]
                                  else [''return'']);
                          content3 = content2 @ [indent @ join '' '' tail];
                          content4 = content3 @ [prefix @ ''}'']
                      in Inr (content4, graphs))))"

text \<open>
  The graphs an attribute, a node and a graph pass up for printing after the block: the
  graph of a graph attribute and the graphs of a graph-list attribute, in the order of
  the nodes and, within a node, of its attributes.
\<close>

definition attribute_graphs :: "AttributeProto \<Rightarrow> GraphProto list" where
  "attribute_graphs a =
     (if attr_f a \<noteq> None \<or> attr_i a \<noteq> None \<or> attr_s a \<noteq> None \<or> attr_t a \<noteq> None then []
      else if attr_g a \<noteq> None then [the (attr_g a)]
      else if attr_floats a \<noteq> [] \<or> attr_ints a \<noteq> [] \<or> attr_strings a \<noteq> [] \<or>
              attr_tensors a \<noteq> [] then []
      else attr_graphs a)"

definition node_graphs :: "NodeProto \<Rightarrow> GraphProto list" where
  "node_graphs n = concat (map attribute_graphs (node_attribute n))"

definition surfaced :: "GraphProto \<Rightarrow> GraphProto list" where
  "surfaced g = concat (map node_graphs (graph_node g))"

lemma sequence_map_snd:
  assumes "sequence (map f xs) = Inr ys" and "\<And>x y. x \<in> set xs \<Longrightarrow> f x = Inr y \<Longrightarrow> snd y = h x"
  shows "map snd ys = map h xs"
  using assms
proof (induction xs arbitrary: ys)
  case Nil
  then show ?case by simp
next
  case (Cons x xs)
  then show ?case by (auto split: sum.splits)
qed

lemma printable_attribute_graphs:
  "printable_attribute P M a = Inr (txt, gs) \<Longrightarrow> gs = attribute_graphs a"
  unfolding printable_attribute_def attribute_graphs_def Let_def
  by (simp split: if_splits sum.splits)

lemma printable_node_graphs:
  assumes "printable_node P M n p = Inr (line, gs)"
  shows "gs = node_graphs n"
proof -
  obtain printed where pr: "sequence (map (printable_attribute P M) (node_attribute n)) = Inr printed"
    and gs: "gs = concat (map snd printed)"
    using assms by (auto simp: printable_node_def Let_def split: sum.splits)
  have "map snd printed = map attribute_graphs (node_attribute n)"
    using pr
  proof (rule sequence_map_snd)
    fix x y assume "printable_attribute P M x = Inr y"
    then show "snd y = attribute_graphs x"
      using printable_attribute_graphs [of P M x "fst y" "snd y"] by simp
  qed
  then show ?thesis using gs by (simp add: node_graphs_def)
qed

lemma graph_body_graphs:
  assumes "graph_body P M g p = Inr (content, gs)"
  shows "gs = surfaced g"
proof -
  obtain printed where
    pr: "sequence (map (\<lambda>node. printable_node P M node (p @ ''  '')) (graph_node g)) = Inr printed"
    and gs: "gs = concat (map snd printed)"
    using assms by (auto simp: graph_body_def Let_def split: sum.splits prod.splits)
  have "map snd printed = map node_graphs (graph_node g)"
    using pr
  proof (rule sequence_map_snd)
    fix x y assume "printable_node P M x (p @ ''  '') = Inr y"
    then show "snd y = node_graphs x"
      using printable_node_graphs [of P M x "p @ ''  ''" "fst y" "snd y"] by simp
  qed
  then show ?thesis using gs by (simp add: surfaced_def)
qed

lemma attribute_graphs_size:
  "h \<in> set (attribute_graphs a) \<Longrightarrow> size h < size a"
proof (cases a)
  case (AttributeProto x1 x2 x3 x4 x5 x6 x7 x8 x9 x10 x11 x12 x13 x14 x15)
  assume h: "h \<in> set (attribute_graphs a)"
  then have "h \<in> set x14 \<or> x8 = Some h"
    using AttributeProto by (auto simp: attribute_graphs_def split: if_splits)
  then show ?thesis
  proof
    assume "h \<in> set x14"
    then have "size h \<le> size_list size x14" by (simp add: size_list_estimation')
    then show ?thesis using AttributeProto by simp
  next
    assume "x8 = Some h"
    then show ?thesis using AttributeProto by simp
  qed
qed

lemma node_graphs_size:
  "h \<in> set (node_graphs n) \<Longrightarrow> size h < size n"
proof -
  assume "h \<in> set (node_graphs n)"
  then obtain a where a: "a \<in> set (node_attribute n)" and h: "h \<in> set (attribute_graphs a)"
    by (auto simp: node_graphs_def)
  have "size a \<le> size_list size (node_attribute n)"
    using a by (simp add: size_list_estimation')
  moreover have "size_list size (node_attribute n) < size n" by (cases n) simp
  ultimately show ?thesis using attribute_graphs_size [OF h] by simp
qed

lemma surfaced_size:
  "h \<in> set (surfaced g) \<Longrightarrow> size h < size g"
proof -
  assume "h \<in> set (surfaced g)"
  then obtain n where n: "n \<in> set (graph_node g)" and h: "h \<in> set (node_graphs n)"
    by (auto simp: surfaced_def)
  have "size n \<le> size_list size (graph_node g)"
    using n by (simp add: size_list_estimation')
  moreover have "size_list size (graph_node g) < size g" by (cases g) simp
  ultimately show ?thesis using node_graphs_size [OF h] by simp
qed

text \<open>
  \<^verbatim>\<open>printable_graph\<close>: the block of the graph, then the block of each graph passed up,
  each after an empty line and with the empty prefix. The recursion ends because a
  graph passed up is a part of the graph.
\<close>

function printable_graph :: "py_builtins \<Rightarrow> mapping \<Rightarrow> GraphProto \<Rightarrow> string \<Rightarrow> error + string" where
  "printable_graph P M graph prefix =
     (case graph_body P M graph prefix of
        Inl e \<Rightarrow> Inl e
      | Inr (content, graphs) \<Rightarrow>
          (case sequence (map (\<lambda>g. printable_graph P M g []) graphs) of
             Inl e \<Rightarrow> Inl e
           | Inr blocks \<Rightarrow> Inr (join newline (content @ map (\<lambda>b. newline @ b) blocks))))"
  by pat_completeness auto

termination
proof (relation "measure (\<lambda>(P, M, graph, prefix). size graph)")
  show "wf (measure (\<lambda>(P, M, graph, prefix). size graph))" by simp
next
  fix P M graph prefix x2 content graphs g
  assume "graph_body P M graph prefix = Inr x2" and "(content, graphs) = x2" and "g \<in> set graphs"
  then have "g \<in> set (surfaced graph)"
    using graph_body_graphs [of P M graph prefix content graphs] by simp
  then show "((P, M, g, []), (P, M, graph, prefix)) \<in> measure (\<lambda>(P, M, graph, prefix). size graph)"
    by (simp add: surfaced_size)
qed

declare printable_graph.simps [simp del]

text \<open>
  Notions used to state the property of the printer: the block of a graph alone, from
  its header to its closing brace, and the graphs nested in a graph, however deep, each
  one followed by the graphs nested in it.
\<close>

definition own_block :: "py_builtins \<Rightarrow> mapping \<Rightarrow> GraphProto \<Rightarrow> string \<Rightarrow> error + string" where
  "own_block P M g prefix =
     (case graph_body P M g prefix of
        Inl e \<Rightarrow> Inl e
      | Inr (content, graphs) \<Rightarrow> Inr (join newline content))"

function preorder :: "GraphProto \<Rightarrow> GraphProto list" where
  "preorder g = concat (map (\<lambda>h. h # preorder h) (surfaced g))"
  by pat_completeness auto
termination
  by (relation "measure size") (simp_all add: surfaced_size)

declare preorder.simps [simp del]

text \<open>
  Formatting functions and three graphs, on which the example is evaluated: the graph
  \<open>main\<close> has a node whose attribute is the graph \<open>inner\<close>, which has a node whose
  attribute is the graph \<open>inner2\<close>.
\<close>

definition P0 :: py_builtins where
  "P0 = \<lparr>format_float = (\<lambda>x. ''0.0''), repr_text = (\<lambda>s. s), decode_ignore = (\<lambda>b. []),
         str_repeated = (\<lambda>vs. ''[]'')\<rparr>"

definition G2 :: GraphProto where
  "G2 = GraphProto ''inner2'' [] [] [] [] [] [] None"

definition G1 :: GraphProto where
  "G1 = GraphProto ''inner''
          [NodeProto ''Loop'' [''x''] [''y''] None None
             [attribute_record ''body'' None (VGraph G2)] None]
          [] [] [] [] [] None"

definition G0 :: GraphProto where
  "G0 = GraphProto ''main''
          [NodeProto ''If'' [''c''] [''r''] None None
             [attribute_record ''then_branch'' None (VGraph G1)] None]
          [] [] [] [] [] None"

section \<open>Properties of the version table\<close>

lemma process_pairs_lookup:
  "process_pairs ir ps m k =
     (case m k of Some v \<Rightarrow> Some v | None \<Rightarrow> if k \<in> set ps then Some ir else None)"
  by (induction ps arbitrary: m) (auto split: option.splits)

lemma process_lookup:
  "process row m k =
     (case m k of Some v \<Rightarrow> Some v
      | None \<Rightarrow> if row_mentions k row then Some (fst (snd row)) else None)"
  by (cases row) (auto simp: process_pairs_lookup row_mentions_def split: option.splits)

lemma process_rows_lookup:
  "process_rows table m k =
     (case m k of Some v \<Rightarrow> Some v
      | None \<Rightarrow> map_option (\<lambda>row. fst (snd row)) (find (row_mentions k) table))"
  by (induction table arbitrary: m) (auto simp: process_lookup split: option.splits)

lemma create_lookup:
  "create_op_set_id_version_map table k =
     map_option (\<lambda>row. fst (snd row)) (find (row_mentions k) table)"
  by (simp add: create_op_set_id_version_map_def process_rows_lookup)

lemma row_mentions_domain: "row_mentions (d, v) row \<Longrightarrow> d \<noteq> []"
  by (auto simp: row_mentions_def DOMAINS_def dest!: set_zip_leftD)

text \<open>
  C3. The map built from a version table is first-write-wins. Whenever the first row
  of the table, in order, that mentions the pair \<open>(d, v)\<close> is \<open>(release, ir, args)\<close>,
  the map records \<open>ir\<close> for the pair, whatever later rows say, and the lookup of the
  single operator-set id \<open>(d, v)\<close> returns \<open>ir\<close>; for the table of the module this is
  what \<open>find_min_ir_version_for\<close> returns.
\<close>

theorem version_map_first_write_wins:
  assumes "find (row_mentions (d, v)) table = Some (release, ir, args)"
  shows "create_op_set_id_version_map table (d, v) = Some ir \<and>
         find_min_ir_version_in (create_op_set_id_version_map table)
           [\<lparr>domain = d, version = v\<rparr>] = Inr ir \<and>
         (table = VERSION_TABLE \<longrightarrow>
            find_min_ir_version_for [\<lparr>domain = d, version = v\<rparr>] = Inr ir)"
proof -
  have look: "create_op_set_id_version_map table (d, v) = Some ir"
    using assms by (simp add: create_lookup)
  have "row_mentions (d, v) (release, ir, args)"
    using assms by (auto simp: find_Some_iff)
  then have d: "d \<noteq> []" by (rule row_mentions_domain)
  have one: "find_min_ir_version_in (create_op_set_id_version_map table)
           [\<lparr>domain = d, version = v\<rparr>] = Inr ir"
    using look d by (simp add: find_min_ir_version_in_def find_min_def)
  show ?thesis using look one
    by (auto simp: find_min_ir_version_for_def OP_SET_ID_VERSION_MAP_def)
qed

text \<open>
  The pair \<open>(ai.onnx.ml, 1)\<close> is introduced by the row of release 1.0 with IR version 3
  and listed again by the row of release 1.5.0 with IR version 5: the map keeps 3.
\<close>

theorem version_map_first_write_wins_witness:
  "find (row_mentions (''ai.onnx.ml'', 1)) VERSION_TABLE = Some (''1.0'', 3, [1, 1]) \<and>
   row_mentions (''ai.onnx.ml'', 1) (''1.5.0'', 5, [10, 1]) \<and>
   (''1.5.0'', 5, [10, 1]) \<in> set VERSION_TABLE \<and>
   create_op_set_id_version_map VERSION_TABLE (''ai.onnx.ml'', 1) = Some 3 \<and>
   find_min_ir_version_for [\<lparr>domain = ''ai.onnx.ml'', version = 1\<rparr>] = Inr 3"
proof -
  have f: "find (row_mentions (''ai.onnx.ml'', 1)) VERSION_TABLE = Some (''1.0'', 3, [1, 1])"
    by (simp add: VERSION_TABLE_def row_mentions_def DOMAINS_def)
  have m: "row_mentions (''ai.onnx.ml'', 1) (''1.5.0'', 5, [10, 1])"
    by (simp add: row_mentions_def DOMAINS_def)
  have s: "(''1.5.0'', 5, [10, 1]) \<in> set VERSION_TABLE"
    by (simp add: VERSION_TABLE_def)
  show ?thesis using version_map_first_write_wins [OF f] f m s by simp
qed

lemma find_min_all_Inl:
  "(\<exists>e. find_min_all m xs = Inl e) \<longleftrightarrow> (\<exists>x\<in>set xs. m (opset_key x) = None)"
  by (induction xs) (auto simp: find_min_def opset_key_def split: option.splits sum.splits)

lemma find_min_all_err: "find_min_all m xs = Inl e \<Longrightarrow> e = UnsupportedOpset"
  by (induction xs arbitrary: e)
    (auto simp: find_min_def Let_def split: option.splits sum.splits if_splits)

lemma find_min_all_Inr:
  "find_min_all m xs = Inr vs \<Longrightarrow> vs = map (\<lambda>x. the (m (opset_key x))) xs"
  by (induction xs arbitrary: vs)
    (auto simp: find_min_def opset_key_def Let_def split: option.splits sum.splits if_splits)

lemma max_list_Max: "max_list v ws = Max (set (v # ws))"
proof (induction ws arbitrary: v)
  case Nil
  then show ?case by simp
next
  case (Cons w ws)
  have "Max (set (v # w # ws)) = Max (set (max v w # ws))"
    by (cases ws) (simp_all add: max.assoc)
  then show ?case using Cons by (simp add: max_def)
qed

text \<open>
  C4. \<open>find_min_ir_version_for\<close> returns exactly 3 for the empty list. For a non-empty
  list, with the empty domain of an id read as \<open>ai.onnx\<close>, it fails with
  \<open>UnsupportedOpset\<close> if the pair of some id is absent from the version map, and
  otherwise returns the maximum of the IR versions the map gives to the ids.
\<close>

theorem find_min_ir_version_for_cases:
  "find_min_ir_version_for opsetidlist =
     (if opsetidlist = [] then Inr 3
      else if \<exists>x \<in> set opsetidlist. OP_SET_ID_VERSION_MAP (opset_key x) = None
        then Inl UnsupportedOpset
      else Inr (Max (set (map (\<lambda>x. the (OP_SET_ID_VERSION_MAP (opset_key x))) opsetidlist))))"
proof (cases opsetidlist)
  case Nil
  then show ?thesis by (simp add: find_min_ir_version_for_def find_min_ir_version_in_def)
next
  case (Cons y ys)
  let ?m = OP_SET_ID_VERSION_MAP
  show ?thesis
  proof (cases "find_min_all ?m opsetidlist")
    case (Inl e)
    then have "\<exists>x \<in> set opsetidlist. ?m (opset_key x) = None"
      using find_min_all_Inl [of ?m opsetidlist] by blast
    moreover have "e = UnsupportedOpset" using Inl by (rule find_min_all_err)
    ultimately show ?thesis using Inl Cons
      by (simp add: find_min_ir_version_for_def find_min_ir_version_in_def)
  next
    case (Inr vs)
    then have no: "\<not> (\<exists>x \<in> set opsetidlist. ?m (opset_key x) = None)"
      using find_min_all_Inl [of ?m opsetidlist] by auto
    have vs: "vs = map (\<lambda>x. the (?m (opset_key x))) opsetidlist"
      using Inr by (rule find_min_all_Inr)
    then obtain w ws where w: "vs = w # ws" using Cons by (cases vs) auto
    have "find_min_ir_version_for opsetidlist = Inr (max_list w ws)"
      using Inr Cons w by (simp add: find_min_ir_version_for_def find_min_ir_version_in_def)
    also have "max_list w ws = Max (set vs)" by (simp add: max_list_Max w)
    finally show ?thesis using no Cons vs by simp
  qed
qed

text \<open>
  The empty list gives 3; the ids \<open>('', 9)\<close> and \<open>(ai.onnx.ml, 2)\<close> need IR versions 4
  and 6, so the result is 6; an id at the unknown version 99 fails.
\<close>

theorem find_min_ir_version_for_cases_witness:
  "find_min_ir_version_for [] = Inr 3 \<and>
   find_min_ir_version_for
     [\<lparr>domain = [], version = 9\<rparr>, \<lparr>domain = ''ai.onnx.ml'', version = 2\<rparr>] = Inr 6 \<and>
   find_min_ir_version_for
     [\<lparr>domain = [], version = 9\<rparr>, \<lparr>domain = ''ai.onnx'', version = 99\<rparr>] =
     Inl UnsupportedOpset"
proof -
  have a: "OP_SET_ID_VERSION_MAP (''ai.onnx'', 9) = Some 4"
    by (simp add: OP_SET_ID_VERSION_MAP_def create_lookup VERSION_TABLE_def row_mentions_def
        DOMAINS_def)
  have b: "OP_SET_ID_VERSION_MAP (''ai.onnx.ml'', 2) = Some 6"
    by (simp add: OP_SET_ID_VERSION_MAP_def create_lookup VERSION_TABLE_def row_mentions_def
        DOMAINS_def)
  have c: "OP_SET_ID_VERSION_MAP (''ai.onnx'', 99) = None"
    by (simp add: OP_SET_ID_VERSION_MAP_def create_lookup VERSION_TABLE_def row_mentions_def
        DOMAINS_def)
  show ?thesis
    using find_min_ir_version_for_cases [of "[]"]
      find_min_ir_version_for_cases
        [of "[\<lparr>domain = [], version = 9\<rparr>, \<lparr>domain = ''ai.onnx.ml'', version = 2\<rparr>]"]
      find_min_ir_version_for_cases
        [of "[\<lparr>domain = [], version = 9\<rparr>, \<lparr>domain = ''ai.onnx'', version = 99\<rparr>]"]
    by (simp add: a b c opset_key_def)
qed

section \<open>Properties of the tensor codec\<close>

lemma size_loop_prod: "size_loop sz ds = sz * prod_list ds"
  by (induction ds arbitrary: sz) (simp_all add: mult.assoc)

lemma sequence_map_Inr:
  "(\<And>i. i \<in> set js \<Longrightarrow> f i = Inr (g i)) \<Longrightarrow> sequence (map f js) = Inr (map g js)"
  by (induction js) simp_all

lemma pairs_by_index:
  "map (\<lambda>i. if i mod 2 = 0 then r (xs ! (i div 2)) else m (xs ! (i div 2)))
     [0 ..< length xs * 2] = concat (map (\<lambda>x. [r x, m x]) xs)"
proof (induction xs rule: rev_induct)
  case Nil
  then show ?case by simp
next
  case (snoc x xs)
  let ?n = "length xs"
  have up: "[0 ..< length (xs @ [x]) * 2] = [0 ..< ?n * 2] @ [?n * 2, Suc (?n * 2)]"
    by simp
  have old: "map (\<lambda>i. if i mod 2 = 0 then r ((xs @ [x]) ! (i div 2)) else m ((xs @ [x]) ! (i div 2)))
               [0 ..< ?n * 2]
           = map (\<lambda>i. if i mod 2 = 0 then r (xs ! (i div 2)) else m (xs ! (i div 2)))
               [0 ..< ?n * 2]"
    by (rule map_cong) (auto simp: nth_append)
  have odd: "Suc (?n * 2) mod 2 = 1" "Suc (?n * 2) div 2 = ?n"
    by presburger+
  show ?case
    unfolding up map_append old snoc.IH by (simp add: nth_append odd)
qed

lemma py_real_number: "is_number x \<Longrightarrow> py_real x = Inr (real_part x)"
  by (cases x) (simp_all add: is_number_def real_part_def)

lemma py_imag_number: "is_number x \<Longrightarrow> py_imag x = Inr (imag_part x)"
  by (cases x) (simp_all add: is_number_def imag_part_def)

lemma split_complex_to_pairs_Seq:
  assumes "list_all is_number xs"
  shows "split_complex_to_pairs (Seq xs) = Inr (concat (map (\<lambda>x. [real_part x, imag_part x]) xs))"
proof -
  have "split_complex_to_pairs (Seq xs) =
        Inr (map (\<lambda>i. if i mod 2 = 0 then real_part (xs ! (i div 2)) else imag_part (xs ! (i div 2)))
          [0 ..< length xs * 2])"
    unfolding split_complex_to_pairs_def len_vals_def tensor_vals.case
  proof (rule sequence_map_Inr)
    fix i assume "i \<in> set [0 ..< length xs * 2]"
    then have "i div 2 < length xs" by auto
    then have "is_number (xs ! (i div 2))" using assms by (simp add: list_all_length)
    then show "(if i mod 2 = 0 then py_real (items (Seq xs) ! (i div 2))
                else py_imag (items (Seq xs) ! (i div 2))) =
               Inr (if i mod 2 = 0 then real_part (xs ! (i div 2)) else imag_part (xs ! (i div 2)))"
      by (simp add: items_def py_real_number py_imag_number)
  qed
  then show ?thesis by (simp add: pairs_by_index)
qed

lemma store_values_complex:
  assumes dt: "dt = COMPLEX64 \<or> dt = COMPLEX128"
    and st: "TENSOR_TYPE_TO_STORAGE_TENSOR_TYPE M dt = Some storage"
    and fd: "STORAGE_TENSOR_TYPE_TO_FIELD M storage = Some field"
    and num: "list_all is_number xs"
  shows "store_values M t dt (Seq xs) False =
         extend_field t field (concat (map (\<lambda>x. [real_part x, imag_part x]) xs))"
  using dt st fd split_complex_to_pairs_Seq [OF num]
  by (auto simp: store_values_def lookup_def items_def)

lemma extend_field_new:
  assumes "field \<in> set typed_fields"
  shows "\<exists>t'. extend_field (TensorProto_new\<lparr>data_type := dt, tensor_name := name\<rparr>) field vs = Inr t' \<and>
          getattr_field t' field = Inr vs \<and> dims t' = [] \<and> tensor_name t' = name \<and> data_type t' = dt"
  using assms
  by (auto simp: extend_field_def getattr_field_def typed_fields_def TensorProto_new_def)

text \<open>
  C6. For COMPLEX64 and COMPLEX128 with \<open>raw = False\<close>, \<open>make_tensor\<close> stores each
  complex input element as two consecutive real entries, the real part and then the
  imaginary part, in the typed field the tables give to the element type, and the dims
  of the tensor are exactly the dims of the caller. The tables are parameters: the
  element type has a storage type and that one a typed field; the number of complex
  elements is the product of the dims.
\<close>

theorem make_tensor_complex_pairs:
  assumes dt: "dt = COMPLEX64 \<or> dt = COMPLEX128"
    and len: "int (length cs) = prod_list ds"
    and st: "TENSOR_TYPE_TO_STORAGE_TENSOR_TYPE M dt = Some storage"
    and fd: "STORAGE_TENSOR_TYPE_TO_FIELD M storage = Some field"
    and ok: "field \<in> set typed_fields"
  shows "\<exists>t. make_tensor M name dt ds (Seq (map PyComplex cs)) False = Inr t \<and>
             getattr_field t field = Inr (concat (map (\<lambda>c. [PyFloat (Re c), PyFloat (Im c)]) cs)) \<and>
             dims t = ds"
proof -
  let ?new = "TensorProto_new\<lparr>data_type := dt, tensor_name := name\<rparr>"
  let ?pairs = "concat (map (\<lambda>c. [PyFloat (Re c), PyFloat (Im c)]) cs)"
  have num: "list_all is_number (map PyComplex cs)"
    by (simp add: list_all_iff is_number_def)
  have "store_values M ?new dt (Seq (map PyComplex cs)) False = extend_field ?new field ?pairs"
    using store_values_complex [OF dt st fd num, of ?new]
    by (simp add: real_part_def imag_part_def comp_def)
  moreover obtain t' where t': "extend_field ?new field ?pairs = Inr t'"
      "getattr_field t' field = Inr ?pairs" "dims t' = []"
    using extend_field_new [OF ok] by blast
  moreover have "getattr_field (t'\<lparr>dims := ds\<rparr>) field = getattr_field t' field"
    by (simp add: getattr_field_def)
  moreover have "dt \<noteq> STRING" using dt by auto
  moreover have "expected_size M dt ds False = Inr (prod_list ds)"
    by (simp add: expected_size_def size_loop_prod)
  ultimately show ?thesis
    using len by (simp add: make_tensor_def Let_def len_vals_def)
qed

text \<open>Two complex values with dims \<open>[2]\<close> give the four entries 1, 2, 3, 4.\<close>

theorem make_tensor_complex_pairs_witness:
  "\<exists>t. make_tensor M0 ''c'' COMPLEX64 [2] (Seq [PyComplex (Complex 1 2), PyComplex (Complex 3 4)]) False = Inr t \<and>
       float_data t = [PyFloat 1, PyFloat 2, PyFloat 3, PyFloat 4] \<and> dims t = [2]"
proof -
  have a: "int (length [Complex 1 2, Complex 3 4]) = prod_list [2]" by simp
  have b: "TENSOR_TYPE_TO_STORAGE_TENSOR_TYPE M0 COMPLEX64 = Some FLOAT" by (simp add: M0_def)
  have c: "STORAGE_TENSOR_TYPE_TO_FIELD M0 FLOAT = Some ''float_data''" by (simp add: M0_def)
  have d: "''float_data'' \<in> set typed_fields" by (simp add: typed_fields_def)
  show ?thesis
    using make_tensor_complex_pairs [of COMPLEX64 "[Complex 1 2, Complex 3 4]" "[2]" M0 FLOAT
        "''float_data''" "''c''", OF _ a b c d]
    by (simp add: getattr_field_def)
qed

lemma sequence_map_Inl:
  "sequence (map f js) = Inl e \<Longrightarrow> \<exists>j \<in> set js. f j = Inl e"
  by (induction js) (auto split: sum.splits)

lemma py_real_Inl: "py_real x = Inl e \<Longrightarrow> e = AttributeError"
  by (cases x) auto

lemma py_imag_Inl: "py_imag x = Inl e \<Longrightarrow> e = AttributeError"
  by (cases x) auto

lemma split_complex_to_pairs_Inl: "split_complex_to_pairs v = Inl e \<Longrightarrow> e = AttributeError"
  unfolding split_complex_to_pairs_def
  by (drule sequence_map_Inl) (auto split: if_splits dest: py_real_Inl py_imag_Inl)

lemma extend_field_Inl: "extend_field t field vs = Inl e \<Longrightarrow> e = AttributeError"
  by (auto simp: extend_field_def split: if_splits)

lemma extend_field_keeps:
  "extend_field t field vs = Inr t' \<Longrightarrow>
     tensor_name t' = tensor_name t \<and> data_type t' = data_type t \<and> dims t' = dims t"
  by (auto simp: extend_field_def split: if_splits)

lemma set_raw_data_Inl: "set_raw_data t v = Inl e \<Longrightarrow> e = TypeError"
  by (auto simp: set_raw_data_def split: tensor_vals.splits)

lemma set_raw_data_keeps:
  "set_raw_data t v = Inr t' \<Longrightarrow>
     tensor_name t' = tensor_name t \<and> data_type t' = data_type t \<and> dims t' = dims t"
  by (auto simp: set_raw_data_def split: tensor_vals.splits)

lemma lookup_Inl: "lookup table k = Inl e \<Longrightarrow> e = KeyError"
  by (auto simp: lookup_def split: option.splits)

lemma store_values_Inl:
  assumes "store_values M t dt vals raw = Inl e"
  shows "e \<noteq> SizeMismatch"
proof (cases "if dt = COMPLEX64 \<or> dt = COMPLEX128
            then map_sum id Seq (split_complex_to_pairs vals) else Inr vals")
  case (Inl e')
  then have "e' = AttributeError"
    by (cases "split_complex_to_pairs vals")
      (auto split: if_splits dest: split_complex_to_pairs_Inl)
  moreover have "e = e'" using assms Inl by (simp add: store_values_def)
  ultimately show ?thesis by simp
next
  case (Inr vals')
  show ?thesis
  proof (cases raw)
    case True
    then have "set_raw_data t vals' = Inl e"
      using assms Inr by (simp add: store_values_def)
    then show ?thesis by (auto dest: set_raw_data_Inl)
  next
    case False
    then have *: "(case lookup (TENSOR_TYPE_TO_STORAGE_TENSOR_TYPE M) dt of
              Inl e \<Rightarrow> Inl e
            | Inr storage \<Rightarrow>
                (case lookup (STORAGE_TENSOR_TYPE_TO_FIELD M) storage of
                   Inl e \<Rightarrow> Inl e
                 | Inr field \<Rightarrow> extend_field t field (items vals'))) = Inl e"
      using assms Inr by (simp add: store_values_def)
    then show ?thesis
      by (auto split: sum.splits dest: lookup_Inl extend_field_Inl)
  qed
qed

lemma store_values_keeps:
  assumes "store_values M t dt vals raw = Inr t'"
  shows "tensor_name t' = tensor_name t \<and> data_type t' = data_type t \<and> dims t' = dims t"
proof (cases "if dt = COMPLEX64 \<or> dt = COMPLEX128
            then map_sum id Seq (split_complex_to_pairs vals) else Inr vals")
  case (Inl e')
  then show ?thesis using assms by (simp add: store_values_def)
next
  case (Inr vals')
  show ?thesis
  proof (cases raw)
    case True
    then have "set_raw_data t vals' = Inr t'"
      using assms Inr by (simp add: store_values_def)
    then show ?thesis by (rule set_raw_data_keeps)
  next
    case False
    then have *: "(case lookup (TENSOR_TYPE_TO_STORAGE_TENSOR_TYPE M) dt of
              Inl e \<Rightarrow> Inl e
            | Inr storage \<Rightarrow>
                (case lookup (STORAGE_TENSOR_TYPE_TO_FIELD M) storage of
                   Inl e \<Rightarrow> Inl e
                 | Inr field \<Rightarrow> extend_field t field (items vals'))) = Inr t'"
      using assms Inr by (simp add: store_values_def)
    then show ?thesis
      by (auto split: sum.splits dest: extend_field_keeps)
  qed
qed

lemma make_tensor_string_raw:
  "make_tensor M name STRING ds vals True = Inl InvalidRawStringTensor"
  by (simp add: make_tensor_def)

lemma expected_size_count:
  "expected_count M dt ds raw = Some n \<Longrightarrow> expected_size M dt ds raw = Inr n"
  by (auto simp: expected_count_def expected_size_def lookup_def size_loop_prod mult.commute
      split: if_splits)

lemma make_tensor_mismatch_iff:
  assumes "\<not> (dt = STRING \<and> raw)" and "expected_count M dt ds raw = Some n"
  shows "make_tensor M name dt ds vals raw = Inl SizeMismatch \<longleftrightarrow> int (len_vals vals) \<noteq> n"
proof (cases "int (len_vals vals) = n")
  case False
  then show ?thesis
    using assms expected_size_count [OF assms(2)] by (auto simp: make_tensor_def Let_def)
next
  case True
  let ?new = "TensorProto_new\<lparr>data_type := dt, tensor_name := name\<rparr>"
  have "make_tensor M name dt ds vals raw \<noteq> Inl SizeMismatch"
  proof (cases "store_values M ?new dt vals raw")
    case (Inl e)
    then have "make_tensor M name dt ds vals raw = Inl e"
      using True assms(1) expected_size_count [OF assms(2)]
      by (auto simp: make_tensor_def Let_def)
    then show ?thesis using store_values_Inl [OF Inl] by simp
  next
    case (Inr t')
    then show ?thesis
      using True assms(1) expected_size_count [OF assms(2)]
      by (auto simp: make_tensor_def Let_def)
  qed
  then show ?thesis using True by simp
qed

lemma make_tensor_Inr:
  assumes "make_tensor M name dt ds vals raw = Inr t"
  shows "tensor_name t = name \<and> data_type t = dt \<and> dims t = ds"
proof -
  let ?new = "TensorProto_new\<lparr>data_type := dt, tensor_name := name\<rparr>"
  obtain t' where st: "store_values M ?new dt vals raw = Inr t'" and t: "t = t'\<lparr>dims := dims t' @ ds\<rparr>"
    using assms
    by (auto simp: make_tensor_def Let_def split: if_splits sum.splits)
  from store_values_keeps [OF st] show ?thesis
    using t by (simp add: TensorProto_new_def)
qed

lemma extend_field_Inr: "field \<in> set typed_fields \<Longrightarrow> \<exists>t'. extend_field t field vs = Inr t'"
  by (auto simp: extend_field_def typed_fields_def)

lemma store_values_storable:
  assumes "storable M dt vals raw"
  shows "\<exists>t'. store_values M t dt vals raw = Inr t'"
proof (cases raw)
  case True
  then show ?thesis using assms
    by (auto simp: storable_def store_values_def set_raw_data_def split: tensor_vals.splits)
next
  case False
  then obtain storage field where
    "TENSOR_TYPE_TO_STORAGE_TENSOR_TYPE M dt = Some storage"
    "STORAGE_TENSOR_TYPE_TO_FIELD M storage = Some field" "field \<in> set typed_fields"
    using assms by (auto simp: storable_def split: option.splits)
  then show ?thesis using assms False extend_field_Inr [of field t "items vals"]
    by (auto simp: storable_def store_values_def lookup_def)
qed

lemma make_tensor_succeeds:
  assumes "\<not> (dt = STRING \<and> raw)" and "expected_count M dt ds raw = Some n"
    and "int (len_vals vals) = n" and "storable M dt vals raw"
  shows "\<exists>t. make_tensor M name dt ds vals raw = Inr t"
proof -
  obtain t' where "store_values M (TensorProto_new\<lparr>data_type := dt, tensor_name := name\<rparr>)
      dt vals raw = Inr t'"
    using store_values_storable [OF assms(4)] by blast
  then show ?thesis
    using assms(1,3) expected_size_count [OF assms(2)]
    by (auto simp: make_tensor_def Let_def)
qed

text \<open>
  C7. \<open>make_tensor\<close> fails with \<open>InvalidRawStringTensor\<close> whenever the element type is
  STRING and \<open>raw\<close> holds. Otherwise, where the expected count \<open>n\<close> is defined (for raw
  storage the byte width of the element type is a parameter), it fails with
  \<open>SizeMismatch\<close> exactly when the length of the values differs from \<open>n\<close>, and it
  succeeds when the length is \<open>n\<close> and the values can be stored. On success the tensor
  carries the given name, element type and dims.
\<close>

theorem make_tensor_checks:
  "make_tensor M name STRING ds vals True = Inl InvalidRawStringTensor \<and>
   (\<not> (dt = STRING \<and> raw) \<longrightarrow> expected_count M dt ds raw = Some n \<longrightarrow>
      (make_tensor M name dt ds vals raw = Inl SizeMismatch \<longleftrightarrow> int (len_vals vals) \<noteq> n) \<and>
      (int (len_vals vals) = n \<longrightarrow> storable M dt vals raw \<longrightarrow>
         (\<exists>t. make_tensor M name dt ds vals raw = Inr t))) \<and>
   (make_tensor M name dt ds vals raw = Inr t \<longrightarrow>
      tensor_name t = name \<and> data_type t = dt \<and> dims t = ds)"
  using make_tensor_string_raw [of M name ds vals]
    make_tensor_mismatch_iff [of dt raw M ds n name vals]
    make_tensor_succeeds [of dt raw M ds n vals name]
    make_tensor_Inr [of M name dt ds vals raw t]
  by blast

text \<open>
  The examples of the specification: a raw STRING tensor is refused; FLOAT with dims
  \<open>[2, 2]\<close> takes four values and refuses three; a raw FLOAT tensor of two elements
  needs eight bytes.
\<close>

theorem make_tensor_checks_witness:
  "make_tensor M0 ''x'' STRING [1] (Seq [PyBytes [120]]) True = Inl InvalidRawStringTensor \<and>
   expected_count M0 FLOAT [2, 2] False = Some 4 \<and>
   make_tensor M0 ''x'' FLOAT [2, 2] (Seq [PyInt 1, PyInt 2, PyInt 3]) False = Inl SizeMismatch \<and>
   (\<exists>t. make_tensor M0 ''x'' FLOAT [2, 2] (Seq [PyInt 1, PyInt 2, PyInt 3, PyInt 4]) False = Inr t \<and>
        tensor_name t = ''x'' \<and> data_type t = FLOAT \<and> dims t = [2, 2]) \<and>
   expected_count M0 FLOAT [2] True = Some 8 \<and>
   make_tensor M0 ''x'' FLOAT [2] (Bytes [0, 0, 128, 63]) True = Inl SizeMismatch"
proof -
  have c: "expected_count M0 FLOAT [2, 2] False = Some 4"
    by (simp add: expected_count_def)
  have r: "expected_count M0 FLOAT [2] True = Some 8"
    by (simp add: expected_count_def M0_def)
  have s: "storable M0 FLOAT (Seq [PyInt 1, PyInt 2, PyInt 3, PyInt 4]) False"
    by (simp add: storable_def M0_def typed_fields_def)
  have l3: "int (len_vals (Seq [PyInt 1, PyInt 2, PyInt 3])) \<noteq> 4"
    and l4: "int (len_vals (Seq [PyInt 1, PyInt 2, PyInt 3, PyInt 4])) = 4"
    and l8: "int (len_vals (Bytes [0, 0, 128, 63])) \<noteq> 8"
    by (simp_all add: len_vals_def)
  have ok: "\<exists>t. make_tensor M0 ''x'' FLOAT [2, 2] (Seq [PyInt 1, PyInt 2, PyInt 3, PyInt 4]) False = Inr t"
    using make_tensor_checks [of M0 "''x''" "[2, 2]" "Seq [PyInt 1, PyInt 2, PyInt 3, PyInt 4]"
        FLOAT False 4] c l4 s by simp
  then obtain t where t: "make_tensor M0 ''x'' FLOAT [2, 2] (Seq [PyInt 1, PyInt 2, PyInt 3, PyInt 4]) False = Inr t"
    by blast
  have keeps: "tensor_name t = ''x'' \<and> data_type t = FLOAT \<and> dims t = [2, 2]"
    using make_tensor_checks [of M0 "''x''" "[2, 2]" "Seq [PyInt 1, PyInt 2, PyInt 3, PyInt 4]"
        FLOAT False 4 t] t by simp
  have m3: "make_tensor M0 ''x'' FLOAT [2, 2] (Seq [PyInt 1, PyInt 2, PyInt 3]) False = Inl SizeMismatch"
    using make_tensor_checks [of M0 "''x''" "[2, 2]" "Seq [PyInt 1, PyInt 2, PyInt 3]"
        FLOAT False 4] c l3 by simp
  have m8: "make_tensor M0 ''x'' FLOAT [2] (Bytes [0, 0, 128, 63]) True = Inl SizeMismatch"
    using make_tensor_checks [of M0 "''x''" "[2]" "Bytes [0, 0, 128, 63]" FLOAT True 8] r l8
    by simp
  have sr: "make_tensor M0 ''x'' STRING [1] (Seq [PyBytes [120]]) True = Inl InvalidRawStringTensor"
    using make_tensor_checks [of M0 "''x''" "[1]" "Seq [PyBytes [120]]"] by simp
  show ?thesis using sr c m3 t keeps r m8 by simp
qed

section \<open>Properties of the type and shape builders\<close>

text \<open>
  C8. \<open>make_tensor_value_info\<close> with the explicitly empty shape yields a value info
  whose tensor type has a present shape without dimensions, which the printer renders
  as a scalar; with the shape \<^verbatim>\<open>None\<close> it yields a value info whose tensor type has no
  shape, rendered with the element type alone. The two value infos differ and so do
  their renderings. The denotation is absent or empty.
\<close>

theorem empty_shape_is_not_absent_shape:
  "make_tensor_value_info name elem_type (Some []) doc None =
     Inr \<lparr>value_name = name, value_doc_string = (if doc \<noteq> [] then Some doc else None),
          value_type = Tensor_type elem_type (Some [])\<rparr> \<and>
   make_tensor_value_info name elem_type (Some []) doc (Some []) =
     make_tensor_value_info name elem_type (Some []) doc None \<and>
   make_tensor_value_info name elem_type None doc None =
     Inr \<lparr>value_name = name, value_doc_string = (if doc \<noteq> [] then Some doc else None),
          value_type = Tensor_type elem_type None\<rparr> \<and>
   make_tensor_value_info name elem_type (Some []) doc None \<noteq>
     make_tensor_value_info name elem_type None doc None \<and>
   printable_type (Tensor_type elem_type (Some [])) = Inr (DataType_Name elem_type @ '', scalar'') \<and>
   printable_type (Tensor_type elem_type None) = Inr (DataType_Name elem_type) \<and>
   (\<exists>v w. make_tensor_value_info name elem_type (Some []) doc None = Inr v \<and>
          make_tensor_value_info name elem_type None doc None = Inr w \<and>
          printable_value_info v = Inr (''%'' @ name @ ''['' @ DataType_Name elem_type @ '', scalar]'') \<and>
          printable_value_info w = Inr (''%'' @ name @ ''['' @ DataType_Name elem_type @ '']'') \<and>
          printable_value_info v \<noteq> printable_value_info w)"
  by (simp add: make_tensor_value_info_def shape_dims_def truthy_def printable_value_info_def)

lemma dims_loop_absent:
  assumes "\<not> truthy sd" and "list_all valid_item sh"
  shows "dims_loop sd i sh = Inr (map (\<lambda>d. \<lparr>dim_which = item_which d, denotation = None\<rparr>) sh)"
  using assms
proof (induction sh arbitrary: i)
  case Nil
  then show ?case by simp
next
  case (Cons d sh)
  then show ?case by (cases d) (simp_all add: valid_item_def)
qed

lemma dims_loop_denoted:
  assumes "ds \<noteq> []" and "i + length sh = length ds" and "list_all valid_item sh"
  shows "dims_loop (Some ds) i sh = Inr (map2 denoted_dim sh (drop i ds))"
  using assms(2,3)
proof (induction sh arbitrary: i)
  case Nil
  then show ?case by simp
next
  case (Cons d sh)
  have t: "truthy (Some ds)" using assms(1) by (cases ds) (simp_all add: truthy_def)
  have i: "i < length ds" using Cons.prems by simp
  then have dr: "drop i ds = ds ! i # drop (Suc i) ds" by (simp add: Cons_nth_drop_Suc)
  have rest: "dims_loop (Some ds) (Suc i) sh = Inr (map2 denoted_dim sh (drop (Suc i) ds))"
    using Cons.prems by (intro Cons.IH) simp_all
  show ?case
    using Cons.prems t i rest dr
    by (cases d) (simp_all add: valid_item_def index_def denoted_dim_def)
qed

lemma shape_dims_mismatch:
  "sd \<noteq> [] \<Longrightarrow> length sd \<noteq> length sh \<Longrightarrow> shape_dims sh (Some sd) = Inl DenotationLengthMismatch"
  by (cases sd) (simp_all add: shape_dims_def truthy_def)

lemma shape_dims_empty: "shape_dims sh (Some []) = shape_dims sh None"
proof -
  have "dims_loop (Some []) i sh = dims_loop None i sh" for i
    by (induction sh arbitrary: i) (simp_all add: truthy_def split: sum.splits)
  then show ?thesis by (simp add: shape_dims_def truthy_def)
qed

lemma shape_dims_match:
  assumes "sd \<noteq> []" and "length sd = length sh" and "list_all valid_item sh"
  shows "shape_dims sh (Some sd) = Inr (map2 denoted_dim sh sd)"
  using assms dims_loop_denoted [of sd 0 sh] by (simp add: shape_dims_def)

text \<open>
  C9, as the code has it. For every shape and every non-empty \<open>shape_denotation\<close> whose
  length differs from the length of the shape, \<open>make_tensor_value_info\<close> and
  \<open>make_sparse_tensor_value_info\<close> fail with \<open>DenotationLengthMismatch\<close>. An empty
  \<open>shape_denotation\<close> is taken as an absent one: its length is not checked and no
  denotation is attached. When the lengths match and the denotation is not empty, each
  denotation is attached to the dimension at its position (the entries of the shape
  being integers, text or \<^verbatim>\<open>None\<close>).
\<close>

theorem denotation_length_check:
  "(sd \<noteq> [] \<and> length sd \<noteq> length sh \<longrightarrow>
      make_tensor_value_info name elem_type (Some sh) doc (Some sd) = Inl DenotationLengthMismatch \<and>
      make_sparse_tensor_value_info name elem_type (Some sh) doc (Some sd) =
        Inl DenotationLengthMismatch) \<and>
   make_tensor_value_info name elem_type (Some sh) doc (Some []) =
     make_tensor_value_info name elem_type (Some sh) doc None \<and>
   make_sparse_tensor_value_info name elem_type (Some sh) doc (Some []) =
     make_sparse_tensor_value_info name elem_type (Some sh) doc None \<and>
   (sd \<noteq> [] \<and> length sd = length sh \<and> list_all valid_item sh \<longrightarrow>
      make_tensor_value_info name elem_type (Some sh) doc (Some sd) =
        Inr \<lparr>value_name = name, value_doc_string = (if doc \<noteq> [] then Some doc else None),
             value_type = Tensor_type elem_type (Some (map2 denoted_dim sh sd))\<rparr> \<and>
      make_sparse_tensor_value_info name elem_type (Some sh) doc (Some sd) =
        Inr \<lparr>value_name = name, value_doc_string = (if doc \<noteq> [] then Some doc else None),
             value_type = Sparse_tensor_type elem_type (Some (map2 denoted_dim sh sd))\<rparr>)"
proof -
  have a: "shape_dims sh (Some sd) = Inl DenotationLengthMismatch"
    if "sd \<noteq> []" "length sd \<noteq> length sh"
    using that by (rule shape_dims_mismatch)
  have b: "shape_dims sh (Some sd) = Inr (map2 denoted_dim sh sd)"
    if "sd \<noteq> []" "length sd = length sh" "list_all valid_item sh"
    using that by (rule shape_dims_match)
  show ?thesis
    using a b
    by (auto simp: make_tensor_value_info_def make_sparse_tensor_value_info_def shape_dims_empty)
qed

text \<open>
  A denotation of length 1 against the empty shape, and of length 1 against a shape of
  length 2, are refused; two denotations are attached to the two dimensions of a shape.
\<close>

theorem denotation_length_check_witness:
  "make_tensor_value_info ''x'' FLOAT (Some []) [] (Some [''batch'']) =
     Inl DenotationLengthMismatch \<and>
   make_sparse_tensor_value_info ''x'' FLOAT (Some [Item_int 2, Item_text ''n'']) []
     (Some [''batch'']) = Inl DenotationLengthMismatch \<and>
   make_tensor_value_info ''x'' FLOAT (Some [Item_int 2, Item_text ''n'']) []
     (Some [''batch'', ''channel'']) =
     Inr \<lparr>value_name = ''x'', value_doc_string = None,
          value_type = Tensor_type FLOAT
            (Some [\<lparr>dim_which = Dim_value 2, denotation = Some ''batch''\<rparr>,
                   \<lparr>dim_which = Dim_param ''n'', denotation = Some ''channel''\<rparr>])\<rparr>"
  using denotation_length_check [of "[''batch'']" "[]" "''x''" FLOAT "[]"]
    denotation_length_check [of "[''batch'']" "[Item_int 2, Item_text ''n'']" "''x''" FLOAT "[]"]
    denotation_length_check [of "[''batch'', ''channel'']" "[Item_int 2, Item_text ''n'']" "''x''"
      FLOAT "[]"]
  by (simp add: valid_item_def denoted_dim_def)

text \<open>
  C9 as it is stated fails: an empty denotation against a shape of length 1 is not
  refused, the value info is built without denotations.
\<close>

theorem empty_denotation_is_not_checked:
  "length ([] :: string list) \<noteq> length [Item_int 1] \<and>
   make_tensor_value_info ''x'' FLOAT (Some [Item_int 1]) [] (Some []) =
     Inr \<lparr>value_name = ''x'', value_doc_string = None,
          value_type = Tensor_type FLOAT (Some [\<lparr>dim_which = Dim_value 1, denotation = None\<rparr>])\<rparr> \<and>
   make_sparse_tensor_value_info ''x'' FLOAT (Some [Item_int 1]) [] (Some []) =
     Inr \<lparr>value_name = ''x'', value_doc_string = None,
          value_type =
            Sparse_tensor_type FLOAT (Some [\<lparr>dim_which = Dim_value 1, denotation = None\<rparr>])\<rparr>"
  by (simp add: make_tensor_value_info_def make_sparse_tensor_value_info_def shape_dims_def
      truthy_def)

section \<open>Properties of the attribute codec\<close>












section \<open>Properties of the model builders\<close>

lemma setattr_all_keeps:
  "ir_version (setattr_all m rest) = ir_version m \<and>
   opset_import (setattr_all m rest) = opset_import m \<and>
   model_graph (setattr_all m rest) = model_graph m"
  by (induction m rest rule: setattr_all.induct) simp_all

lemma make_model_fields:
  "ir_version (make_model C g kw) =
     (case kw_ir_version kw of Some v \<Rightarrow> v | None \<Rightarrow> IR_VERSION C) \<and>
   opset_import (make_model C g kw) =
     (case kw_opset_imports kw of
        Some opsets \<Rightarrow> opsets
      | None \<Rightarrow> [\<lparr>domain = [], version = onnx_opset_version C\<rparr>]) \<and>
   model_graph (make_model C g kw) = g"
  by (simp add: make_model_def Let_def setattr_all_keeps split: option.splits)

text \<open>
  C5, as the code has it. An explicit \<open>ir_version\<close> is used unchanged. Without one, when
  the caller supplies \<open>opset_imports\<close>, the model gets these imports and its IR version is
  the lookup of the version table over them, and the call fails where the lookup fails;
  when the caller supplies no \<open>opset_imports\<close>, the model gets the single default import
  at the current operator-set version, and its IR version is the lookup over the empty
  list, which is 3.
\<close>

theorem make_model_gen_version_ir:
  "(kw_ir_version kw = Some v \<longrightarrow>
      (\<exists>m. make_model_gen_version C g kw = Inr m \<and> ir_version m = v \<and> model_graph m = g)) \<and>
   (kw_ir_version kw = None \<and> kw_opset_imports kw = Some opsets \<longrightarrow>
      (case find_min_ir_version_for opsets of
         Inl e \<Rightarrow> make_model_gen_version C g kw = Inl e
       | Inr w \<Rightarrow>
           (\<exists>m. make_model_gen_version C g kw = Inr m \<and> opset_import m = opsets \<and>
                ir_version m = w \<and> model_graph m = g))) \<and>
   (kw_ir_version kw = None \<and> kw_opset_imports kw = None \<longrightarrow>
      (\<exists>m. make_model_gen_version C g kw = Inr m \<and>
           opset_import m = [\<lparr>domain = [], version = onnx_opset_version C\<rparr>] \<and>
           ir_version m = 3 \<and> model_graph m = g))"
proof -
  have e: "find_min_ir_version_for [] = Inr 3"
    by (simp add: find_min_ir_version_for_def find_min_ir_version_in_def)
  show ?thesis
    by (auto simp: make_model_gen_version_def make_model_fields e split: sum.splits)
qed

text \<open>
  With the imports \<open>('', 9)\<close> and \<open>(ai.onnx.ml, 2)\<close> the IR version is 6; an explicit IR
  version 5 stays 5; without imports the IR version is 3.
\<close>

theorem make_model_gen_version_ir_witness:
  "(\<exists>m. make_model_gen_version C0 GraphProto_new
          \<lparr>kw_ir_version = None,
           kw_opset_imports = Some [\<lparr>domain = [], version = 9\<rparr>, \<lparr>domain = ''ai.onnx.ml'', version = 2\<rparr>],
           kw_rest = []\<rparr> = Inr m \<and>
        opset_import m = [\<lparr>domain = [], version = 9\<rparr>, \<lparr>domain = ''ai.onnx.ml'', version = 2\<rparr>] \<and>
        ir_version m = 6) \<and>
   (\<exists>m. make_model_gen_version C0 GraphProto_new
          \<lparr>kw_ir_version = Some 5, kw_opset_imports = None, kw_rest = []\<rparr> = Inr m \<and>
        ir_version m = 5) \<and>
   (\<exists>m. make_model_gen_version C0 GraphProto_new
          \<lparr>kw_ir_version = None, kw_opset_imports = None, kw_rest = []\<rparr> = Inr m \<and>
        ir_version m = 3)"
proof -
  have a: "OP_SET_ID_VERSION_MAP (''ai.onnx'', 9) = Some 4"
    by (simp add: OP_SET_ID_VERSION_MAP_def create_lookup VERSION_TABLE_def row_mentions_def
        DOMAINS_def)
  have b: "OP_SET_ID_VERSION_MAP (''ai.onnx.ml'', 2) = Some 6"
    by (simp add: OP_SET_ID_VERSION_MAP_def create_lookup VERSION_TABLE_def row_mentions_def
        DOMAINS_def)
  have f: "find_min_ir_version_for
      [\<lparr>domain = [], version = 9\<rparr>, \<lparr>domain = ''ai.onnx.ml'', version = 2\<rparr>] = Inr 6"
    by (simp add: find_min_ir_version_for_def find_min_ir_version_in_def find_min_def a b)
  show ?thesis
    using make_model_gen_version_ir
        [where kw = "\<lparr>kw_ir_version = None,
              kw_opset_imports = Some [\<lparr>domain = [], version = 9\<rparr>, \<lparr>domain = ''ai.onnx.ml'', version = 2\<rparr>],
              kw_rest = []\<rparr>"
           and opsets = "[\<lparr>domain = [], version = 9\<rparr>, \<lparr>domain = ''ai.onnx.ml'', version = 2\<rparr>]"
           and C = C0 and g = GraphProto_new]
      make_model_gen_version_ir
        [where kw = "\<lparr>kw_ir_version = Some 5, kw_opset_imports = None, kw_rest = []\<rparr>"
           and v = 5 and C = C0 and g = GraphProto_new]
      make_model_gen_version_ir
        [where kw = "\<lparr>kw_ir_version = None, kw_opset_imports = None, kw_rest = []\<rparr>"
           and C = C0 and g = GraphProto_new]
    by (simp add: f) blast
qed

text \<open>
  C5 as it is stated fails. With the current operator-set version 14, a call without
  \<open>ir_version\<close> and without \<open>opset_imports\<close> yields a model whose single import is
  \<open>('', 14)\<close>; the lookup of the version table over the imports of this model is 7, and
  the IR version of the model is 3.
\<close>

theorem default_import_is_not_looked_up:
  "make_model_gen_version C0 GraphProto_new
     \<lparr>kw_ir_version = None, kw_opset_imports = None, kw_rest = []\<rparr> =
     Inr \<lparr>ir_version = 3, model_graph = GraphProto_new,
          opset_import = [\<lparr>domain = [], version = 14\<rparr>], other_fields = Map.empty\<rparr> \<and>
   find_min_ir_version_for [\<lparr>domain = [], version = 14\<rparr>] = Inr 7"
proof -
  have a: "OP_SET_ID_VERSION_MAP (''ai.onnx'', 14) = Some 7"
    by (simp add: OP_SET_ID_VERSION_MAP_def create_lookup VERSION_TABLE_def row_mentions_def
        DOMAINS_def)
  have e: "find_min_ir_version_for [] = Inr 3"
    by (simp add: find_min_ir_version_for_def find_min_ir_version_in_def)
  have f: "find_min_ir_version_for [\<lparr>domain = [], version = 14\<rparr>] = Inr 7"
    by (simp add: find_min_ir_version_for_def find_min_ir_version_in_def find_min_def a)
  show ?thesis
    by (simp add: make_model_gen_version_def make_model_def e f C0_def)
qed

section \<open>Properties of the printer\<close>

lemma sequence_append:
  "sequence (xs @ ys) =
     (case sequence xs of
        Inl e \<Rightarrow> Inl e
      | Inr a \<Rightarrow> (case sequence ys of Inl e \<Rightarrow> Inl e | Inr b \<Rightarrow> Inr (a @ b)))"
  by (induction xs) (auto split: sum.splits)

lemma sequence_length: "sequence xs = Inr ys \<Longrightarrow> length ys = length xs"
  by (induction xs arbitrary: ys) (auto split: sum.splits)

lemma join_Cons: "join sep (b # bs) = b @ concat (map (\<lambda>x. sep @ x) bs)"
  by (induction bs arbitrary: b) simp_all

lemma join_append:
  "xs \<noteq> [] \<Longrightarrow> join sep (xs @ ys) = join sep xs @ concat (map (\<lambda>x. sep @ x) ys)"
  by (cases xs) (simp_all add: join_Cons)

lemma graph_body_content:
  assumes "graph_body P M g prefix = Inr (content, gs)"
  shows "\<exists>body. body \<noteq> [] \<and> content = body @ [prefix @ ''}'']"
proof -
  obtain c0 h0 and printed :: "(string \<times> GraphProto list) list" where
    "content = ((c0 @ [prefix @ join '' '' (h0 @ [''{''])]) @ map fst printed) @
       [(prefix @ ''  '') @
        join '' ''
          (if length (graph_output g) \<noteq> 0
           then [''return'', join '', '' (map (\<lambda>out. ''%'' @ value_name out) (graph_output g))]
           else [''return''])] @ [prefix @ ''}'']"
    using assms by (auto simp: graph_body_def Let_def split: sum.splits prod.splits)
  then show ?thesis by auto
qed

lemma own_block_closing:
  assumes "own_block P M g prefix = Inr text"
  shows "\<exists>body. text = body @ newline @ prefix @ ''}''"
proof -
  obtain content gs where gb: "graph_body P M g prefix = Inr (content, gs)"
    and tx: "text = join newline content"
    using assms by (auto simp: own_block_def split: sum.splits prod.splits)
  obtain body where "body \<noteq> []" "content = body @ [prefix @ ''}'']"
    using graph_body_content [OF gb] by blast
  then have "text = join newline body @ newline @ prefix @ ''}''"
    using tx by (simp add: join_append)
  then show ?thesis by blast
qed

text \<open>
  The blocks of a graph printed with the empty prefix and of the graphs nested in it, in
  order, and their text.
\<close>

lemma blocks_step:
  fixes own :: "GraphProto \<Rightarrow> error + string" and R :: "GraphProto \<Rightarrow> error + string"
  assumes "\<And>h. h \<in> set hs \<Longrightarrow>
      R h = (case sequence (own h # map own (preorder h)) of
               Inl e \<Rightarrow> Inl e
             | Inr bs \<Rightarrow> Inr (join sep bs))"
  shows "map_sum id (\<lambda>blocks. concat (map (\<lambda>b. sep @ b) blocks)) (sequence (map R hs)) =
         map_sum id (\<lambda>bs. concat (map (\<lambda>b. sep @ b) bs))
           (sequence (map own (concat (map (\<lambda>h. h # preorder h) hs))))"
  using assms
proof (induction hs)
  case Nil
  then show ?case by simp
next
  case (Cons h hs)
  have IH: "map_sum id (\<lambda>blocks. concat (map (\<lambda>b. sep @ b) blocks)) (sequence (map R hs)) =
         map_sum id (\<lambda>bs. concat (map (\<lambda>b. sep @ b) bs))
           (sequence (map own (concat (map (\<lambda>h. h # preorder h) hs))))"
    using Cons.prems by (intro Cons.IH) simp
  have Rh: "R h = (case sequence (own h # map own (preorder h)) of
               Inl e \<Rightarrow> Inl e
             | Inr bs \<Rightarrow> Inr (join sep bs))"
    using Cons.prems by simp
  have split: "sequence (map own (concat (map (\<lambda>h. h # preorder h) (h # hs)))) =
      (case sequence (own h # map own (preorder h)) of
         Inl e \<Rightarrow> Inl e
       | Inr a \<Rightarrow>
           (case sequence (map own (concat (map (\<lambda>h. h # preorder h) hs))) of
              Inl e \<Rightarrow> Inl e
            | Inr b \<Rightarrow> Inr (a @ b)))"
    using sequence_append [of "own h # map own (preorder h)"
        "map own (concat (map (\<lambda>h. h # preorder h) hs))"]
    by simp
  show ?case
  proof (cases "sequence (own h # map own (preorder h))")
    case (Inl e)
    then show ?thesis using Rh split by simp
  next
    case (Inr a)
    then have "length a = Suc (length (preorder h))"
      using sequence_length [of "own h # map own (preorder h)" a] by simp
    then obtain b bs where a: "a = b # bs" by (cases a) auto
    have tx: "sep @ join sep a = concat (map (\<lambda>x. sep @ x) a)"
      by (simp add: a join_Cons)
    show ?thesis
    proof (cases "sequence (map R hs)")
      case L: (Inl e)
      then obtain e' where "sequence (map own (concat (map (\<lambda>h. h # preorder h) hs))) = Inl e'"
        and "e' = e"
        using IH by (cases "sequence (map own (concat (map (\<lambda>h. h # preorder h) hs)))") auto
      then show ?thesis using Rh Inr split L by simp
    next
      case R: (Inr blocks)
      then obtain bs' where
        b': "sequence (map own (concat (map (\<lambda>h. h # preorder h) hs))) = Inr bs'"
        and eq: "concat (map (\<lambda>b. sep @ b) blocks) = concat (map (\<lambda>b. sep @ b) bs')"
        using IH by (cases "sequence (map own (concat (map (\<lambda>h. h # preorder h) hs)))") auto
      have "sequence (map R (h # hs)) = Inr (join sep a # blocks)"
        using Rh Inr R by simp
      moreover have "sequence (map own (concat (map (\<lambda>h. h # preorder h) (h # hs)))) = Inr (a @ bs')"
        using split Inr b' by simp
      ultimately show ?thesis using tx eq by simp
    qed
  qed
qed

lemma printable_graph_blocks:
  "printable_graph P M g prefix =
     (case sequence (own_block P M g prefix # map (\<lambda>h. own_block P M h []) (preorder g)) of
        Inl e \<Rightarrow> Inl e
      | Inr blocks \<Rightarrow> Inr (join (newline @ newline) blocks))"
proof (induction P M g prefix rule: printable_graph.induct)
  case (1 P M graph prefix)
  show ?case
  proof (cases "graph_body P M graph prefix")
    case (Inl e)
    then show ?thesis by (simp add: own_block_def printable_graph.simps [of P M graph prefix])
  next
    case (Inr r)
    obtain content graphs where r: "r = (content, graphs)" by (cases r)
    have gs: "graphs = surfaced graph"
      using graph_body_graphs [of P M graph prefix content graphs] Inr r by simp
    obtain body where body: "body \<noteq> []" "content = body @ [prefix @ ''}'']"
      using graph_body_content [of P M graph prefix content graphs] Inr r by auto
    then have ne: "content \<noteq> []" by simp
    have own: "own_block P M graph prefix = Inr (join newline content)"
      using Inr r by (simp add: own_block_def)
    have pre: "preorder graph = concat (map (\<lambda>h. h # preorder h) graphs)"
      using gs preorder.simps [of graph] by simp
    have step: "map_sum id (\<lambda>blocks. concat (map (\<lambda>b. (newline @ newline) @ b) blocks))
           (sequence (map (\<lambda>g. printable_graph P M g []) graphs)) =
         map_sum id (\<lambda>bs. concat (map (\<lambda>b. (newline @ newline) @ b) bs))
           (sequence (map (\<lambda>h. own_block P M h [])
              (concat (map (\<lambda>h. h # preorder h) graphs))))"
    proof (rule blocks_step)
      fix h assume "h \<in> set graphs"
      then show "printable_graph P M h [] =
          (case sequence (own_block P M h [] # map (\<lambda>h. own_block P M h []) (preorder h)) of
             Inl e \<Rightarrow> Inl e
           | Inr bs \<Rightarrow> Inr (join (newline @ newline) bs))"
        using "1.IH" [OF Inr r [symmetric]] by simp
    qed
    have unfold: "printable_graph P M graph prefix =
        (case sequence (map (\<lambda>g. printable_graph P M g []) graphs) of
           Inl e \<Rightarrow> Inl e
         | Inr blocks \<Rightarrow>
             Inr (join newline content @ concat (map (\<lambda>b. (newline @ newline) @ b) blocks)))"
      using Inr r ne
      by (simp add: join_append comp_def printable_graph.simps [of P M graph prefix]
          split: sum.splits)
    show ?thesis
    proof (cases "sequence (map (\<lambda>g. printable_graph P M g []) graphs)")
      case L: (Inl e)
      then have "sequence (map (\<lambda>h. own_block P M h [])
              (concat (map (\<lambda>h. h # preorder h) graphs))) = Inl e"
        using step
        by (cases "sequence (map (\<lambda>h. own_block P M h [])
              (concat (map (\<lambda>h. h # preorder h) graphs)))") auto
      then show ?thesis using unfold L own pre by simp
    next
      case R: (Inr blocks)
      then obtain bs where
        bs: "sequence (map (\<lambda>h. own_block P M h [])
              (concat (map (\<lambda>h. h # preorder h) graphs))) = Inr bs"
        and eq: "concat (map (\<lambda>b. (newline @ newline) @ b) blocks) =
                 concat (map (\<lambda>b. (newline @ newline) @ b) bs)"
        using step
        by (cases "sequence (map (\<lambda>h. own_block P M h [])
              (concat (map (\<lambda>h. h # preorder h) graphs)))") auto
      show ?thesis
        using unfold R own pre bs eq by (simp add: join_Cons)
    qed
  qed
qed

lemma printable_graph_attribute:
  "printable_attribute P M (attribute_record key doc (VGraph h)) =
     Inr (key @ '' = <graph '' @ graph_name h @ ''>'', [h])"
  by (simp add: printable_attribute_def)

lemma printable_graphs_attribute:
  "printable_attribute P M (attribute_record key doc (VGraphs (h # hs))) =
     Inr (join '' '' ([key, ''='', ''[''] @ graph_items (h # hs) @ ['']'']), h # hs)"
  by (simp add: printable_attribute_def)

text \<open>
  C10. The attribute of a node that holds a graph is rendered as the placeholder
  \<open><graph NAME>\<close> alone, and a list of graphs as the list of their placeholders; the
  graphs are passed up, in the order of the nodes and of the attributes within a node.
  The block of a graph ends with its closing brace. \<open>printable_graph\<close> returns the block
  of the graph followed by the blocks of the graphs nested in it, each with the empty
  prefix and after an empty line: first the graphs passed up by the nodes, each one
  followed at once by the graphs nested in it, so that a graph nested twice comes after
  the block of its own parent. The call fails where one of these blocks fails.
\<close>

theorem nested_graphs_after_closing_brace:
  "printable_attribute P M (attribute_record key doc (VGraph h)) =
     Inr (key @ '' = <graph '' @ graph_name h @ ''>'', [h]) \<and>
   printable_attribute P M (attribute_record key doc (VGraphs (h # hs))) =
     Inr (join '' '' ([key, ''='', ''[''] @ graph_items (h # hs) @ ['']'']), h # hs) \<and>
   (printable_node P M n indent = Inr (line, passed) \<longrightarrow> passed = node_graphs n) \<and>
   (graph_body P M g prefix = Inr (content, graphs) \<longrightarrow> graphs = surfaced g) \<and>
   (own_block P M g prefix = Inr block \<longrightarrow> (\<exists>body. block = body @ newline @ prefix @ ''}'')) \<and>
   preorder g = concat (map (\<lambda>h. h # preorder h) (surfaced g)) \<and>
   printable_graph P M g prefix =
     (case sequence (own_block P M g prefix # map (\<lambda>h. own_block P M h []) (preorder g)) of
        Inl e \<Rightarrow> Inl e
      | Inr blocks \<Rightarrow> Inr (join (newline @ newline) blocks))"
  using printable_graph_attribute [of P M key doc h]
    printable_graphs_attribute [of P M key doc h hs]
    printable_node_graphs [of P M n indent line passed]
    graph_body_graphs [of P M g prefix content graphs]
    own_block_closing [of P M g prefix block]
    preorder.simps [of g]
    printable_graph_blocks [of P M g prefix]
  by blast

text \<open>
  The graph \<open>main\<close>: its block holds the placeholder of \<open>inner\<close>; the block of \<open>inner\<close>
  follows the closing brace of \<open>main\<close>, and the block of \<open>inner2\<close> follows that of
  \<open>inner\<close>.
\<close>

theorem nested_graphs_after_closing_brace_witness:
  "preorder G0 = [G1, G2] \<and>
   own_block P0 M0 G0 [] =
     Inr ''graph main {\<newline>  %r = If[then_branch = <graph inner>](%c)\<newline>  return\<newline>}'' \<and>
   own_block P0 M0 G1 [] =
     Inr ''graph inner {\<newline>  %y = Loop[body = <graph inner2>](%x)\<newline>  return\<newline>}'' \<and>
   own_block P0 M0 G2 [] = Inr ''graph inner2 {\<newline>  return\<newline>}'' \<and>
   printable_graph P0 M0 G0 [] =
     Inr ''graph main {\<newline>  %r = If[then_branch = <graph inner>](%c)\<newline>  return\<newline>}\<newline>\<newline>graph inner {\<newline>  %y = Loop[body = <graph inner2>](%x)\<newline>  return\<newline>}\<newline>\<newline>graph inner2 {\<newline>  return\<newline>}''"
proof -
  have s2: "surfaced G2 = []" by (simp add: surfaced_def G2_def)
  have s1: "surfaced G1 = [G2]"
    by (simp add: surfaced_def node_graphs_def attribute_graphs_def G1_def)
  have s0: "surfaced G0 = [G1]"
    by (simp add: surfaced_def node_graphs_def attribute_graphs_def G0_def)
  have p2: "preorder G2 = []" using preorder.simps [of G2] by (simp add: s2)
  have p1: "preorder G1 = [G2]" using preorder.simps [of G1] by (simp add: s1 p2)
  have p0: "preorder G0 = [G1, G2]"
    using nested_graphs_after_closing_brace [where g = G0] by (simp add: s0 p1)
  have b0: "own_block P0 M0 G0 [] =
     Inr ''graph main {\<newline>  %r = If[then_branch = <graph inner>](%c)\<newline>  return\<newline>}''"
    by code_simp
  have b1: "own_block P0 M0 G1 [] =
     Inr ''graph inner {\<newline>  %y = Loop[body = <graph inner2>](%x)\<newline>  return\<newline>}''"
    by code_simp
  have b2: "own_block P0 M0 G2 [] = Inr ''graph inner2 {\<newline>  return\<newline>}''"
    by code_simp
  have "printable_graph P0 M0 G0 [] =
     Inr ''graph main {\<newline>  %r = If[then_branch = <graph inner>](%c)\<newline>  return\<newline>}\<newline>\<newline>graph inner {\<newline>  %y = Loop[body = <graph inner2>](%x)\<newline>  return\<newline>}\<newline>\<newline>graph inner2 {\<newline>  return\<newline>}''"
    using nested_graphs_after_closing_brace [where P = P0 and M = M0 and g = G0 and prefix = "[]"]
    by (simp add: p0 b0 b1 b2 newline_def)
  then show ?thesis using p0 b0 b1 b2 by simp
qed

end
